theory Spec2Isabelle
  imports Complex_Main
begin

section \<open>JavaScript values, exceptions and the runtime\<close>

text \<open>
  The adaptation layer of \<^verbatim>\<open>src/lib/api.ts\<close> works on values that come out of
  \<^verbatim>\<open>JSON.parse\<close>. They are modelled by the datatype \<open>json\<close>; a number carries the
  rational value of its double, which is all that truthiness needs. An object lists each key
  once (the binding \<^verbatim>\<open>JSON.parse\<close> keeps). The value \<^verbatim>\<open>undefined\<close> is \<open>None\<close> of
  \<open>json option\<close>.
\<close>

datatype json =
    JNull
  | JBool bool
  | JNum rat
  | JStr string
  | JArr "json list"
  | JObj "(string \<times> json) list"

text \<open>
  A thrown value is an \<^verbatim>\<open>Error\<close> instance with a name and a message, or some other
  value (for which \<^verbatim>\<open>e instanceof Error\<close> is false).
\<close>

datatype err_name = ErrorN | SyntaxErrorN | TypeErrorN | AbortErrorN

datatype exn = JsError err_name string | NonError

text \<open>
  What awaiting a promise gives: a value, a rejection, or nothing at all when the promise
  never settles.
\<close>

datatype 'a outcome = Returned 'a | Raised exn | Hangs

text \<open>
  The parts of the JavaScript engine that the code calls and that differ between engines
  are parameters: \<^verbatim>\<open>JSON.parse\<close> (\<open>Inl m\<close> is a \<^verbatim>\<open>SyntaxError\<close> with message
  \<open>m\<close>), the conversion of a value that is not a string to a string (which can throw), the
  message of the \<^verbatim>\<open>TypeError\<close> for a property read on \<^verbatim>\<open>null\<close> or
  \<^verbatim>\<open>undefined\<close> (given the property's name) and for iterating a value that is not
  iterable, and the message of the rejection of an aborted \<^verbatim>\<open>fetch\<close>. Every theorem
  below holds for all runtimes.
\<close>

record js_runtime =
  json_parse :: "string \<Rightarrow> string + json"
  to_string :: "json \<Rightarrow> exn + string"
  nullish_read_message :: "string \<Rightarrow> string"
  not_iterable_message :: string
  abort_message :: string

fun truthy :: "json \<Rightarrow> bool" where
  "truthy JNull = False"
| "truthy (JBool b) = b"
| "truthy (JNum r) = (r \<noteq> 0)"
| "truthy (JStr s) = (s \<noteq> [])"
| "truthy (JArr xs) = True"
| "truthy (JObj kvs) = True"

definition truthy_opt :: "json option \<Rightarrow> bool" where
  "truthy_opt v = (case v of None \<Rightarrow> False | Some x \<Rightarrow> truthy x)"

text \<open>
  \<open>field v k\<close> is \<^verbatim>\<open>v.k\<close> on a value that is neither \<^verbatim>\<open>null\<close> nor
  \<^verbatim>\<open>undefined\<close>, for the property names the code reads (none of them is a built-in
  property of arrays, strings, numbers or booleans). \<open>at0 v\<close> is \<^verbatim>\<open>v[0]\<close>.
\<close>

fun field :: "json \<Rightarrow> string \<Rightarrow> json option" where
  "field (JObj kvs) k = map_of kvs k"
| "field v k = None"

fun at0 :: "json \<Rightarrow> json option" where
  "at0 (JArr xs) = (case xs of [] \<Rightarrow> None | x # rest \<Rightarrow> Some x)"
| "at0 (JStr s) = (case s of [] \<Rightarrow> None | c # rest \<Rightarrow> Some (JStr [c]))"
| "at0 (JObj kvs) = map_of kvs ''0''"
| "at0 v = None"

text \<open>\<^verbatim>\<open>v.k\<close>: throws a \<^verbatim>\<open>TypeError\<close> on \<^verbatim>\<open>null\<close> and \<^verbatim>\<open>undefined\<close>.\<close>

definition dot :: "js_runtime \<Rightarrow> json option \<Rightarrow> string \<Rightarrow> exn + json option" where
  "dot rt v k =
     (case v of
        None \<Rightarrow> Inl (JsError TypeErrorN (nullish_read_message rt k))
      | Some JNull \<Rightarrow> Inl (JsError TypeErrorN (nullish_read_message rt k))
      | Some x \<Rightarrow> Inr (field x k))"

text \<open>\<^verbatim>\<open>v?.k\<close> and \<^verbatim>\<open>v?.[0]\<close>: \<^verbatim>\<open>undefined\<close> on \<^verbatim>\<open>null\<close> and \<^verbatim>\<open>undefined\<close>.\<close>

definition qdot :: "json option \<Rightarrow> string \<Rightarrow> json option" where
  "qdot v k = (case v of None \<Rightarrow> None | Some JNull \<Rightarrow> None | Some x \<Rightarrow> field x k)"

definition qat0 :: "json option \<Rightarrow> json option" where
  "qat0 v = (case v of None \<Rightarrow> None | Some JNull \<Rightarrow> None | Some x \<Rightarrow> at0 x)"

text \<open>
  String conversion, as in \<^verbatim>\<open>fullText += content\<close>, a template literal or
  \<^verbatim>\<open>new Error(x)\<close>: the identity on a string, the runtime's conversion otherwise.
\<close>

definition to_text :: "js_runtime \<Rightarrow> json \<Rightarrow> exn + string" where
  "to_text rt v = (case v of JStr s \<Rightarrow> Inr s | _ \<Rightarrow> to_string rt v)"

text \<open>
  The progress callback \<^verbatim>\<open>onChunk\<close> is an observer with a state of its own: it is given
  the value, updates its state, and returns or throws.
\<close>

type_synonym 's callback = "json \<Rightarrow> 's \<Rightarrow> exn option \<times> 's"

section \<open>Stream reassembly\<close>

text \<open>
  A response body is the sequence of text fragments that
  \<^verbatim>\<open>decoder.decode(value, {stream: true})\<close> yields for the successive reads, and the way the
  reading ends: \<^verbatim>\<open>done\<close>, or a rejected \<^verbatim>\<open>reader.read()\<close>.
\<close>

datatype stream_end = EndOfStream | ReadError exn

record body_stream =
  chunks :: "string list"
  ending :: stream_end

text \<open>\<^verbatim>\<open>buffer.split("\n")\<close>: never empty.\<close>

fun split_nl :: "string \<Rightarrow> string list" where
  "split_nl [] = [[]]"
| "split_nl (c # cs) =
     (if c = CHR 0x0A then [] # split_nl cs
      else (case split_nl cs of [] \<Rightarrow> [[c]] | l # ls \<Rightarrow> (c # l) # ls))"

text \<open>
  The three reading loops of \<^verbatim>\<open>api.ts\<close> (lines 302-327, 360-384 and 489-524) are the
  same text around three different line bodies, so the loop is written once, over the line
  body \<open>h\<close>. A line body returns the state it leaves and the exception it lets escape, if
  any. \<open>for_lines\<close> is \<^verbatim>\<open>for (const line of lines)\<close>; \<open>read_chunks\<close> is
  \<^verbatim>\<open>while (true)\<close> with \<^verbatim>\<open>buffer += ...; lines = buffer.split("\n"); buffer = lines.pop() || ""\<close>;
  \<open>read_stream\<close> starts it with the empty buffer and ends it as the reader does.
\<close>

fun for_lines :: "('st \<Rightarrow> string \<Rightarrow> exn option \<times> 'st) \<Rightarrow> 'st \<Rightarrow> string list \<Rightarrow> exn option \<times> 'st" where
  "for_lines h st [] = (None, st)"
| "for_lines h st (l # ls) =
     (case h st l of
        (Some e, st') \<Rightarrow> (Some e, st')
      | (None, st') \<Rightarrow> for_lines h st' ls)"

fun read_chunks ::
  "('st \<Rightarrow> string \<Rightarrow> exn option \<times> 'st) \<Rightarrow> string \<Rightarrow> 'st \<Rightarrow> string list \<Rightarrow> exn option \<times> string \<times> 'st" where
  "read_chunks h buffer st [] = (None, buffer, st)"
| "read_chunks h buffer st (c # cs) =
     (let lines = split_nl (buffer @ c) in
      case for_lines h st (butlast lines) of
        (Some e, st') \<Rightarrow> (Some e, last lines, st')
      | (None, st') \<Rightarrow> read_chunks h (last lines) st' cs)"

definition read_stream ::
  "('st \<Rightarrow> string \<Rightarrow> exn option \<times> 'st) \<Rightarrow> 'st \<Rightarrow> body_stream \<Rightarrow> exn option \<times> 'st" where
  "read_stream h st b =
     (case read_chunks h [] st (chunks b) of
        (Some e, buffer, st') \<Rightarrow> (Some e, st')
      | (None, buffer, st') \<Rightarrow>
          (case ending b of
             EndOfStream \<Rightarrow> (None, st')
           | ReadError e \<Rightarrow> (Some e, st')))"

subsection \<open>The line bodies of the direct planning paths\<close>

text \<open>
  \<^verbatim>\<open>fullText += content; if (onChunk) onChunk(content);\<close> inside the \<^verbatim>\<open>try\<close>: the text
  is appended before the callback runs, so it stays appended when the callback throws.
\<close>

definition deliver ::
  "js_runtime \<Rightarrow> 's callback option \<Rightarrow> string \<times> 's \<Rightarrow> json \<Rightarrow> exn option \<times> string \<times> 's" where
  "deliver rt onChunk st content =
     (case st of (fullText, s) \<Rightarrow>
        (case to_text rt content of
           Inl e \<Rightarrow> (Some e, fullText, s)
         | Inr t \<Rightarrow>
             (case onChunk of
                None \<Rightarrow> (None, fullText @ t, s)
              | Some f \<Rightarrow> (case f content s of (x, s') \<Rightarrow> (x, fullText @ t, s')))))"

text \<open>The body of the \<^verbatim>\<open>try\<close> of lines 315-321 (OpenAI-compatible protocol).\<close>

definition openai_try ::
  "js_runtime \<Rightarrow> 's callback option \<Rightarrow> string \<times> 's \<Rightarrow> string \<Rightarrow> exn option \<times> string \<times> 's" where
  "openai_try rt onChunk st data =
     (case json_parse rt data of
        Inl m \<Rightarrow> (Some (JsError SyntaxErrorN m), st)
      | Inr parsed \<Rightarrow>
          (case dot rt (Some parsed) ''choices'' of
             Inl e \<Rightarrow> (Some e, st)
           | Inr choices \<Rightarrow>
               (case qdot (qdot (qat0 choices) ''delta'') ''content'' of
                  None \<Rightarrow> (None, st)
                | Some content \<Rightarrow>
                    if truthy content then deliver rt onChunk st content else (None, st))))"

text \<open>Lines 311-325: the empty \<^verbatim>\<open>catch\<close> keeps the state and drops the exception.\<close>

definition openai_line ::
  "js_runtime \<Rightarrow> 's callback option \<Rightarrow> string \<times> 's \<Rightarrow> string \<Rightarrow> exn option \<times> string \<times> 's" where
  "openai_line rt onChunk st line =
     (if take 6 line = ''data: '' then
        (let data = drop 6 line in
         if data = ''[DONE]'' then (None, st)
         else (case openai_try rt onChunk st data of (x, st') \<Rightarrow> (None, st')))
      else (None, st))"

text \<open>The body of the \<^verbatim>\<open>try\<close> of lines 372-378 (Vertex protocol).\<close>

definition vertex_try ::
  "js_runtime \<Rightarrow> 's callback option \<Rightarrow> string \<times> 's \<Rightarrow> string \<Rightarrow> exn option \<times> string \<times> 's" where
  "vertex_try rt onChunk st data =
     (case json_parse rt data of
        Inl m \<Rightarrow> (Some (JsError SyntaxErrorN m), st)
      | Inr parsed \<Rightarrow>
          (case dot rt (Some parsed) ''candidates'' of
             Inl e \<Rightarrow> (Some e, st)
           | Inr candidates \<Rightarrow>
               (case qdot (qat0 (qdot (qdot (qat0 candidates) ''content'') ''parts'')) ''text'' of
                  None \<Rightarrow> (None, st)
                | Some text \<Rightarrow>
                    if truthy text then deliver rt onChunk st text else (None, st))))"

text \<open>Lines 369-382.\<close>

definition vertex_line ::
  "js_runtime \<Rightarrow> 's callback option \<Rightarrow> string \<times> 's \<Rightarrow> string \<Rightarrow> exn option \<times> string \<times> 's" where
  "vertex_line rt onChunk st line =
     (if take 6 line = ''data: '' then
        (case vertex_try rt onChunk st (drop 6 line) of (x, st') \<Rightarrow> (None, st'))
      else (None, st))"

subsection \<open>The line body of the proxied planning path\<close>

text \<open>
  The body of the \<^verbatim>\<open>try\<close> of lines 501-513. The state is the variable \<^verbatim>\<open>result\<close>
  and the observer's state.
\<close>

definition proxy_try ::
  "js_runtime \<Rightarrow> 's callback option \<Rightarrow> json option \<times> 's \<Rightarrow> string \<Rightarrow> exn option \<times> json option \<times> 's" where
  "proxy_try rt onChunk st data =
     (case st of (result, s) \<Rightarrow>
        (case json_parse rt data of
           Inl m \<Rightarrow> (Some (JsError SyntaxErrorN m), st)
         | Inr parsed \<Rightarrow>
             (case dot rt (Some parsed) ''error'' of
                Inl e \<Rightarrow> (Some e, st)
              | Inr err \<Rightarrow>
                  (case (if truthy_opt err then err else None) of
                     Some ev \<Rightarrow>
                       (case to_text rt ev of
                          Inl e \<Rightarrow> (Some e, st)
                        | Inr m \<Rightarrow> (Some (JsError ErrorN m), st))
                   | None \<Rightarrow>
                       (case (case (if truthy_opt (field parsed ''chunk'') then field parsed ''chunk'' else None) of
                                None \<Rightarrow> (None, s)
                              | Some chunk \<Rightarrow>
                                  (case onChunk of None \<Rightarrow> (None, s) | Some f \<Rightarrow> f chunk s)) of
                          (Some e, s') \<Rightarrow> (Some e, result, s')
                        | (None, s') \<Rightarrow>
                            if truthy_opt (field parsed ''done'') \<and> truthy_opt (field parsed ''result'')
                            then (None, field parsed ''result'', s')
                            else (None, result, s'))))))"

text \<open>
  The \<^verbatim>\<open>catch\<close> of lines 514-521 rethrows an \<^verbatim>\<open>Error\<close> instance unless its message is
  the one given there.
\<close>

definition rethrown :: "exn \<Rightarrow> bool" where
  "rethrown e =
     (case e of
        JsError n m \<Rightarrow> m \<noteq> ''Unexpected end of JSON input''
      | NonError \<Rightarrow> False)"

text \<open>Lines 498-522.\<close>

definition proxy_line ::
  "js_runtime \<Rightarrow> 's callback option \<Rightarrow> json option \<times> 's \<Rightarrow> string \<Rightarrow> exn option \<times> json option \<times> 's" where
  "proxy_line rt onChunk st line =
     (if take 6 line = ''data: '' then
        (case proxy_try rt onChunk st (drop 6 line) of
           (Some e, st') \<Rightarrow> if rethrown e then (Some e, st') else (None, st')
         | (None, st') \<Rightarrow> (None, st'))
      else (None, st))"

section \<open>Configuration, collaborators and the network\<close>

text \<open>
  Modelled from the spec: the declarations of \<^verbatim>\<open>ApiProtocol\<close>, \<^verbatim>\<open>RequestMode\<close> and
  \<^verbatim>\<open>ApiConfig\<close> in \<^verbatim>\<open>lib/config.ts\<close>, which is not among the sources. The spec gives
  two protocols, two transports and the six fields; the code names the members
  \<^verbatim>\<open>ApiProtocol.OPENAI\<close> and \<^verbatim>\<open>RequestMode.CLIENT_DIRECT\<close> and the field
  \<^verbatim>\<open>requestMode\<close>.
\<close>

datatype ApiProtocol = VERTEX_AI | OPENAI

datatype RequestMode = CLIENT_DIRECT | SERVER_PROXY

record ApiConfig =
  protocol :: ApiProtocol
  requestMode :: RequestMode
  apiBase :: string
  apiKey :: string
  contentModelId :: string
  imageModelId :: string

text \<open>
  The functions imported from \<^verbatim>\<open>lib/prompts.ts\<close> and \<^verbatim>\<open>lib/utils.ts\<close>, which are not
  among the sources, are parameters. A \<^verbatim>\<open>PresentationConfig\<close> and a \<^verbatim>\<open>SlideContent\<close>
  are plain data objects that the layer only hands on, so they are \<open>json\<close> values.
\<close>

record collaborators =
  buildPlanningSystemPrompt :: "json \<Rightarrow> string"
  buildPlanningUserPrompt :: "string \<Rightarrow> string"
  getPlanningResponseSchema :: json
  getPlanningOutputFormatHint :: string
  buildImageGenerationPrompt :: "json \<Rightarrow> string \<Rightarrow> json \<Rightarrow> string"
  cleanJsonString :: "string \<Rightarrow> string"

text \<open>
  A request is what \<^verbatim>\<open>fetch\<close> is given. \<open>req_body\<close> is the value handed to
  \<^verbatim>\<open>JSON.stringify\<close>. \<open>signal = Some t\<close> stands for
  \<^verbatim>\<open>signal: controller.signal\<close> together with
  \<^verbatim>\<open>setTimeout(() => controller.abort(), t)\<close>; \<open>None\<close> is a call without a signal.
\<close>

datatype payload =
    Json json
  | PlanProxy string json ApiConfig
  | GenProxy json string json ApiConfig

record request =
  url :: string
  http_method :: string
  headers :: "(string \<times> string) list"
  req_body :: payload
  signal :: "nat option"

record response =
  ok :: bool
  statusText :: string
  body :: "body_stream option"

text \<open>
  The network answers a request after some number of milliseconds, with a response or a
  rejection, or never. With a signal whose timer fires first, \<^verbatim>\<open>fetch\<close> rejects with an
  \<^verbatim>\<open>AbortError\<close>; without a signal it waits for as long as the network takes. Reading
  a body that has arrived takes no time in this model.
\<close>

datatype fetch_behaviour = Settles nat "exn + response" | Never

type_synonym network = "request \<Rightarrow> fetch_behaviour"

definition settle :: "exn + 'a \<Rightarrow> 'a outcome" where
  "settle r = (case r of Inl e \<Rightarrow> Raised e | Inr v \<Rightarrow> Returned v)"

definition fetch :: "js_runtime \<Rightarrow> network \<Rightarrow> request \<Rightarrow> response outcome" where
  "fetch rt net req =
     (case signal req of
        None \<Rightarrow> (case net req of Never \<Rightarrow> Hangs | Settles d r \<Rightarrow> settle r)
      | Some t \<Rightarrow>
          (case net req of
             Never \<Rightarrow> Raised (JsError AbortErrorN (abort_message rt))
           | Settles d r \<Rightarrow>
               if d < t then settle r else Raised (JsError AbortErrorN (abort_message rt))))"

text \<open>\<^verbatim>\<open>response.text()\<close> and \<^verbatim>\<open>response.json()\<close>.\<close>

definition response_text :: "response \<Rightarrow> exn + string" where
  "response_text r =
     (case body r of
        None \<Rightarrow> Inr []
      | Some b \<Rightarrow>
          (case ending b of
             EndOfStream \<Rightarrow> Inr (concat (chunks b))
           | ReadError e \<Rightarrow> Inl e))"

definition response_json :: "js_runtime \<Rightarrow> response \<Rightarrow> exn + json" where
  "response_json rt r =
     (case response_text r of
        Inl e \<Rightarrow> Inl e
      | Inr t \<Rightarrow>
          (case json_parse rt t of
             Inl m \<Rightarrow> Inl (JsError SyntaxErrorN m)
           | Inr v \<Rightarrow> Inr v))"

text \<open>\<^verbatim>\<open>a || b\<close>.\<close>

definition or_else :: "json option \<Rightarrow> json \<Rightarrow> json" where
  "or_else a b = (case a of None \<Rightarrow> b | Some v \<Rightarrow> if truthy v then v else b)"

text \<open>
  The text of \<^verbatim>\<open>timeoutMs / 1000\<close> in a template literal (exact while the quotient is
  printed without an exponent, which covers every timeout below \<open>10\<^sup>1\<^sup>5\<close> ms).
\<close>

definition digit :: "nat \<Rightarrow> char" where
  "digit n = ''0123456789'' ! (n mod 10)"

fun show_nat :: "nat \<Rightarrow> string" where
  "show_nat n = (if n < 10 then [digit n] else show_nat (n div 10) @ [digit n])"

definition seconds_text :: "nat \<Rightarrow> string" where
  "seconds_text timeoutMs =
     show_nat (timeoutMs div 1000) @
     (if timeoutMs mod 1000 = 0 then []
      else CHR ''.'' #
           rev (dropWhile (\<lambda>c. c = CHR ''0'')
                  (rev [digit (timeoutMs div 100), digit (timeoutMs div 10), digit timeoutMs])))"

text \<open>
  The outer \<^verbatim>\<open>catch (error)\<close> of the four \<^verbatim>\<open>fetch\<close> wrappers
  (\<^verbatim>\<open>api.ts\<close> lines 86-92, 147-153, 190-194, 243-247).
\<close>

definition timeout_catch :: "nat \<Rightarrow> exn \<Rightarrow> exn" where
  "timeout_catch timeoutMs error =
     (case error of
        JsError n m \<Rightarrow>
          if n = AbortErrorN
          then JsError ErrorN (''Request timeout after '' @ seconds_text timeoutMs @ '' seconds'')
          else error
      | NonError \<Rightarrow> error)"

text \<open>The result of one call of a wrapper: what it gives and the requests it issued.\<close>

datatype 'a call = Call (reply: "'a outcome") (sent: "request list")

text \<open>
  The exception thrown in the \<^verbatim>\<open>if (!response.ok)\<close> block of the two streaming wrappers
  (lines 73-83, 134-144).
\<close>

definition stream_api_error :: "js_runtime \<Rightarrow> response \<Rightarrow> exn" where
  "stream_api_error rt response =
     (case response_text response of
        Inl e \<Rightarrow> e
      | Inr errorText \<Rightarrow>
          (let errorMessage =
                 (case json_parse rt errorText of
                    Inr errorData \<Rightarrow>
                      or_else (qdot (qdot (Some errorData) ''error'') ''message'')
                        (JStr (statusText response))
                  | Inl m \<Rightarrow> JStr (if errorText \<noteq> [] then errorText else statusText response))
           in case to_text rt errorMessage of
                Inl e \<Rightarrow> e
              | Inr m \<Rightarrow> JsError ErrorN (''API error: '' @ m)))"

text \<open>\<^verbatim>\<open>clientStreamVertexAPI\<close>, lines 48-93.\<close>

definition clientStreamVertexAPI ::
  "js_runtime \<Rightarrow> network \<Rightarrow> ApiConfig \<Rightarrow> string \<Rightarrow> json \<Rightarrow> nat \<Rightarrow> response call" where
  "clientStreamVertexAPI rt net config model requestBody timeoutMs =
     (let req = \<lparr>url = apiBase config @ ''/models/'' @ model @ '':streamGenerateContent?alt=sse'',
                 http_method = ''POST'',
                 headers = [(''Content-Type'', ''application/json''),
                            (''X-Goog-Api-Key'', apiKey config)],
                 req_body = Json requestBody,
                 signal = Some timeoutMs\<rparr>
      in Call
           (case fetch rt net req of
              Raised e \<Rightarrow> Raised (timeout_catch timeoutMs e)
            | Hangs \<Rightarrow> Hangs
            | Returned response \<Rightarrow>
                if \<not> ok response
                then Raised (timeout_catch timeoutMs (stream_api_error rt response))
                else Returned response)
           [req])"

text \<open>\<^verbatim>\<open>clientStreamOpenAIAPI\<close>, lines 98-154.\<close>

definition clientStreamOpenAIAPI ::
  "js_runtime \<Rightarrow> network \<Rightarrow> ApiConfig \<Rightarrow> string \<Rightarrow> json \<Rightarrow> json option \<Rightarrow> nat \<Rightarrow> response call" where
  "clientStreamOpenAIAPI rt net config model messages responseFormat timeoutMs =
     (let requestBody =
            JObj ([(''model'', JStr model), (''messages'', messages), (''stream'', JBool True)] @
                  (case responseFormat of
                     None \<Rightarrow> []
                   | Some f \<Rightarrow> if truthy f then [(''response_format'', f)] else []));
          req = \<lparr>url = apiBase config @ ''/chat/completions'',
                 http_method = ''POST'',
                 headers = [(''Content-Type'', ''application/json''),
                            (''Authorization'', ''Bearer '' @ apiKey config)],
                 req_body = Json requestBody,
                 signal = Some timeoutMs\<rparr>
      in Call
           (case fetch rt net req of
              Raised e \<Rightarrow> Raised (timeout_catch timeoutMs e)
            | Hangs \<Rightarrow> Hangs
            | Returned response \<Rightarrow>
                if \<not> ok response
                then Raised (timeout_catch timeoutMs (stream_api_error rt response))
                else Returned response)
           [req])"

text \<open>
  The exception thrown in the \<^verbatim>\<open>if (!response.ok)\<close> block of the two single-shot
  wrappers (lines 181-187, 234-240): a body that cannot be read as JSON counts as \<^verbatim>\<open>{}\<close>.
\<close>

definition call_api_error :: "js_runtime \<Rightarrow> response \<Rightarrow> exn" where
  "call_api_error rt response =
     (let errorData = (case response_json rt response of Inl e \<Rightarrow> JObj [] | Inr v \<Rightarrow> v);
          errorMessage =
            or_else (qdot (qdot (Some errorData) ''error'') ''message'') (JStr (statusText response))
      in case to_text rt errorMessage of
           Inl e \<Rightarrow> e
         | Inr m \<Rightarrow> JsError ErrorN (''API error: '' @ m))"

text \<open>
  \<^verbatim>\<open>clientCallVertexAPI\<close>, lines 159-198. \<^verbatim>\<open>return response.json()\<close> hands the promise
  out of the \<^verbatim>\<open>try\<close> without awaiting it, so its rejection does not pass through the
  \<^verbatim>\<open>catch\<close>.
\<close>

definition clientCallVertexAPI ::
  "js_runtime \<Rightarrow> network \<Rightarrow> ApiConfig \<Rightarrow> string \<Rightarrow> json \<Rightarrow> nat \<Rightarrow> json call" where
  "clientCallVertexAPI rt net config model requestBody timeoutMs =
     (let req = \<lparr>url = apiBase config @ ''/models/'' @ model @ '':generateContent'',
                 http_method = ''POST'',
                 headers = [(''Content-Type'', ''application/json''),
                            (''X-Goog-Api-Key'', apiKey config)],
                 req_body = Json requestBody,
                 signal = Some timeoutMs\<rparr>
      in Call
           (case fetch rt net req of
              Raised e \<Rightarrow> Raised (timeout_catch timeoutMs e)
            | Hangs \<Rightarrow> Hangs
            | Returned response \<Rightarrow>
                if \<not> ok response
                then Raised (timeout_catch timeoutMs (call_api_error rt response))
                else settle (response_json rt response))
           [req])"

text \<open>\<^verbatim>\<open>clientCallOpenAIImageAPI\<close>, lines 203-251.\<close>

definition clientCallOpenAIImageAPI ::
  "js_runtime \<Rightarrow> network \<Rightarrow> ApiConfig \<Rightarrow> string \<Rightarrow> string \<Rightarrow> nat \<Rightarrow> json call" where
  "clientCallOpenAIImageAPI rt net config model prompt timeoutMs =
     (let req = \<lparr>url = apiBase config @ ''/chat/completions'',
                 http_method = ''POST'',
                 headers = [(''Content-Type'', ''application/json''),
                            (''Authorization'', ''Bearer '' @ apiKey config)],
                 req_body =
                   Json (JObj [(''model'', JStr model),
                               (''messages'',
                                  JArr [JObj [(''role'', JStr ''user''), (''content'', JStr prompt)]]),
                               (''modalities'', JArr [JStr ''image'', JStr ''text''])]),
                 signal = Some timeoutMs\<rparr>
      in Call
           (case fetch rt net req of
              Raised e \<Rightarrow> Raised (timeout_catch timeoutMs e)
            | Hangs \<Rightarrow> Hangs
            | Returned response \<Rightarrow>
                if \<not> ok response
                then Raised (timeout_catch timeoutMs (call_api_error rt response))
                else settle (response_json rt response))
           [req])"

section \<open>Direct mode\<close>

text \<open>
  The result of a planning call: what it gives, the state the observer is left in, and the
  requests it issued.
\<close>

datatype ('a, 's) run = Run (outcome: "'a outcome") (observer: 's) (issued: "request list")

text \<open>
  \<^verbatim>\<open>for (const part of ... || [])\<close>: the items of what is iterated. An array gives its
  elements and a string its characters; any other truthy value is not iterable.
\<close>

definition iterate :: "js_runtime \<Rightarrow> json option \<Rightarrow> exn + json list" where
  "iterate rt v =
     (case or_else v (JArr []) of
        JArr xs \<Rightarrow> Inr xs
      | JStr s \<Rightarrow> Inr (map (\<lambda>c. JStr [c]) s)
      | x \<Rightarrow> Inl (JsError TypeErrorN (not_iterable_message rt)))"

text \<open>The loop body of \<^verbatim>\<open>extractImage\<close>, lines 257-262.\<close>

fun scan_parts :: "js_runtime \<Rightarrow> json list \<Rightarrow> exn + string option" where
  "scan_parts rt [] = Inr None"
| "scan_parts rt (part # rest) =
     (case dot rt (Some part) ''inlineData'' of
        Inl e \<Rightarrow> Inl e
      | Inr inlineData \<Rightarrow>
          if truthy_opt (qdot inlineData ''data'') then
            (case to_text rt (or_else (qdot inlineData ''mimeType'') (JStr ''image/png'')) of
               Inl e \<Rightarrow> Inl e
             | Inr mimeType \<Rightarrow>
                 (case to_text rt (or_else (qdot inlineData ''data'') JNull) of
                    Inl e \<Rightarrow> Inl e
                  | Inr d \<Rightarrow> Inr (Some (''data:'' @ mimeType @ '';base64,'' @ d))))
          else scan_parts rt rest)"

text \<open>\<^verbatim>\<open>extractImage\<close>, lines 256-264; \<open>None\<close> is \<^verbatim>\<open>null\<close>.\<close>

definition extractImage :: "js_runtime \<Rightarrow> json \<Rightarrow> exn + string option" where
  "extractImage rt response =
     (case dot rt (Some response) ''candidates'' of
        Inl e \<Rightarrow> Inl e
      | Inr candidates \<Rightarrow>
          (case iterate rt (qdot (qdot (qat0 candidates) ''content'') ''parts'') of
             Inl e \<Rightarrow> Inl e
           | Inr parts \<Rightarrow> scan_parts rt parts))"

text \<open>
  From the response to the accumulated text (lines 296-327 and 354-384): the reader, then
  the reading loop with the line body \<open>h\<close>, starting from the empty \<^verbatim>\<open>fullText\<close>.
\<close>

definition read_plan_stream ::
  "(string \<times> 's \<Rightarrow> string \<Rightarrow> exn option \<times> string \<times> 's) \<Rightarrow> response call \<Rightarrow> 's \<Rightarrow> (string, 's) run" where
  "read_plan_stream h c s =
     (case c of Call r reqs \<Rightarrow>
        (case r of
           Raised e \<Rightarrow> Run (Raised e) s reqs
         | Hangs \<Rightarrow> Run Hangs s reqs
         | Returned response \<Rightarrow>
             (case body response of
                None \<Rightarrow> Run (Raised (JsError ErrorN ''No response body'')) s reqs
              | Some b \<Rightarrow>
                  (case read_stream h ([], s) b of
                     (Some e, fullText, s') \<Rightarrow> Run (Raised e) s' reqs
                   | (None, fullText, s') \<Rightarrow> Run (Returned fullText) s' reqs))))"

text \<open>Lines 387-388: \<^verbatim>\<open>return JSON.parse(cleanJsonString(fullText))\<close>.\<close>

definition parse_plan :: "js_runtime \<Rightarrow> collaborators \<Rightarrow> string \<Rightarrow> json outcome" where
  "parse_plan rt co fullText =
     (case json_parse rt (cleanJsonString co fullText) of
        Inl m \<Rightarrow> Raised (JsError SyntaxErrorN m)
      | Inr v \<Rightarrow> Returned v)"

text \<open>\<^verbatim>\<open>planPresentationClientDirect\<close>, lines 271-389.\<close>

definition planPresentationClientDirect ::
  "js_runtime \<Rightarrow> collaborators \<Rightarrow> network \<Rightarrow> string \<Rightarrow> json \<Rightarrow> ApiConfig \<Rightarrow>
     's callback option \<Rightarrow> 's \<Rightarrow> (json, 's) run" where
  "planPresentationClientDirect rt co net document presentationConfig apiConfig onChunk s =
     (case (if protocol apiConfig = OPENAI then
              (let systemPrompt =
                     buildPlanningSystemPrompt co presentationConfig @ getPlanningOutputFormatHint co;
                   messages =
                     JArr [JObj [(''role'', JStr ''system''), (''content'', JStr systemPrompt)],
                           JObj [(''role'', JStr ''user''),
                                 (''content'', JStr (buildPlanningUserPrompt co document))]]
               in read_plan_stream (openai_line rt onChunk)
                    (clientStreamOpenAIAPI rt net apiConfig (contentModelId apiConfig) messages
                       (Some (JObj [(''type'', JStr ''json_object'')])) 180000) s)
            else
              (let systemInstruction = buildPlanningSystemPrompt co presentationConfig;
                   requestBody =
                     JObj [(''systemInstruction'',
                              JObj [(''parts'', JArr [JObj [(''text'', JStr systemInstruction)]])]),
                           (''contents'',
                              JArr [JObj [(''role'', JStr ''user''),
                                          (''parts'',
                                             JArr [JObj [(''text'',
                                                          JStr (buildPlanningUserPrompt co document))]])]]),
                           (''generationConfig'',
                              JObj [(''responseMimeType'', JStr ''application/json''),
                                    (''responseSchema'', getPlanningResponseSchema co)])]
               in read_plan_stream (vertex_line rt onChunk)
                    (clientStreamVertexAPI rt net apiConfig (contentModelId apiConfig) requestBody
                       180000) s)) of
        Run r s' reqs \<Rightarrow>
          (case r of
             Returned fullText \<Rightarrow> Run (parse_plan rt co fullText) s' reqs
           | Raised e \<Rightarrow> Run (Raised e) s' reqs
           | Hangs \<Rightarrow> Run Hangs s' reqs))"

text \<open>\<^verbatim>\<open>images.length === 0\<close> on a truthy value.\<close>

fun length_is_zero :: "json \<Rightarrow> bool" where
  "length_is_zero (JArr xs) = (xs = [])"
| "length_is_zero (JStr s) = (s = [])"
| "length_is_zero (JObj kvs) = (map_of kvs ''length'' = Some (JNum 0))"
| "length_is_zero v = False"

text \<open>Lines 413-418, on the parsed response.\<close>

definition openai_image :: "js_runtime \<Rightarrow> json \<Rightarrow> json option outcome" where
  "openai_image rt response =
     (case dot rt (Some response) ''choices'' of
        Inl e \<Rightarrow> Raised e
      | Inr choices \<Rightarrow>
          (case (if truthy_opt (qdot (qdot (qat0 choices) ''message'') ''images'')
                 then qdot (qdot (qat0 choices) ''message'') ''images'' else None) of
             None \<Rightarrow> Raised (JsError ErrorN ''No image generated'')
           | Some images \<Rightarrow>
               if length_is_zero images then Raised (JsError ErrorN ''No image generated'')
               else
                 (case dot rt (at0 images) ''image_url'' of
                    Inl e \<Rightarrow> Raised e
                  | Inr image_url \<Rightarrow> settle (dot rt image_url ''url''))))"

text \<open>Lines 439-444, on the parsed response.\<close>

definition vertex_image :: "js_runtime \<Rightarrow> json \<Rightarrow> json option outcome" where
  "vertex_image rt response =
     (case extractImage rt response of
        Inl e \<Rightarrow> Raised e
      | Inr extracted \<Rightarrow>
          (case extracted of
             None \<Rightarrow> Raised (JsError ErrorN ''No image generated'')
           | Some uri \<Rightarrow>
               if uri = [] then Raised (JsError ErrorN ''No image generated'')
               else Returned (Some (JStr uri))))"

text \<open>
  \<^verbatim>\<open>generateSlideImageClientDirect\<close>, lines 394-446. The value returned is a
  \<open>json option\<close>, since the OpenAI branch returns whatever \<^verbatim>\<open>image_url.url\<close> holds.
\<close>

definition generateSlideImageClientDirect ::
  "js_runtime \<Rightarrow> collaborators \<Rightarrow> network \<Rightarrow> json \<Rightarrow> string \<Rightarrow> json \<Rightarrow> ApiConfig \<Rightarrow> json option call" where
  "generateSlideImageClientDirect rt co net slide deckTitle presentationConfig apiConfig =
     (let fullPrompt = buildImageGenerationPrompt co slide deckTitle presentationConfig in
      if protocol apiConfig = OPENAI then
        (case clientCallOpenAIImageAPI rt net apiConfig (imageModelId apiConfig) fullPrompt 180000 of
           Call r reqs \<Rightarrow>
             (case r of
                Returned response \<Rightarrow> Call (openai_image rt response) reqs
              | Raised e \<Rightarrow> Call (Raised e) reqs
              | Hangs \<Rightarrow> Call Hangs reqs))
      else
        (let requestBody =
               JObj [(''contents'',
                        JArr [JObj [(''role'', JStr ''user''),
                                    (''parts'', JArr [JObj [(''text'', JStr fullPrompt)]])]]),
                     (''generationConfig'',
                        JObj [(''responseModalities'', JArr [JStr ''IMAGE'', JStr ''TEXT''])])]
         in case clientCallVertexAPI rt net apiConfig (imageModelId apiConfig) requestBody 180000 of
              Call r reqs \<Rightarrow>
                (case r of
                   Returned response \<Rightarrow> Call (vertex_image rt response) reqs
                 | Raised e \<Rightarrow> Call (Raised e) reqs
                 | Hangs \<Rightarrow> Call Hangs reqs)))"

section \<open>Proxied mode\<close>

text \<open>
  The exception thrown in the \<^verbatim>\<open>if (!response.ok)\<close> block of the two proxied
  functions (lines 473-478, 555-560).
\<close>

definition proxy_error :: "js_runtime \<Rightarrow> response \<Rightarrow> exn" where
  "proxy_error rt response =
     (let errorData = (case response_json rt response of Inl e \<Rightarrow> JObj [] | Inr v \<Rightarrow> v);
          errorMessage = or_else (qdot (Some errorData) ''error'') (JStr (statusText response))
      in case to_text rt errorMessage of
           Inl e \<Rightarrow> e
         | Inr m \<Rightarrow> JsError ErrorN m)"

text \<open>\<^verbatim>\<open>planPresentationServerProxy\<close>, lines 453-531.\<close>

definition planPresentationServerProxy ::
  "js_runtime \<Rightarrow> network \<Rightarrow> string \<Rightarrow> json \<Rightarrow> ApiConfig \<Rightarrow> 's callback option \<Rightarrow> 's \<Rightarrow> (json, 's) run" where
  "planPresentationServerProxy rt net document presentationConfig apiConfig onChunk s =
     (let req = \<lparr>url = ''/api/plan'',
                 http_method = ''POST'',
                 headers = [(''Content-Type'', ''application/json'')],
                 req_body = PlanProxy document presentationConfig apiConfig,
                 signal = None\<rparr>
      in case fetch rt net req of
           Raised e \<Rightarrow> Run (Raised e) s [req]
         | Hangs \<Rightarrow> Run Hangs s [req]
         | Returned response \<Rightarrow>
             if \<not> ok response then Run (Raised (proxy_error rt response)) s [req]
             else
               (case body response of
                  None \<Rightarrow> Run (Raised (JsError ErrorN ''No response body'')) s [req]
                | Some b \<Rightarrow>
                    (case read_stream (proxy_line rt onChunk) (None, s) b of
                       (Some e, result, s') \<Rightarrow> Run (Raised e) s' [req]
                     | (None, result, s') \<Rightarrow>
                         (case result of
                            None \<Rightarrow> Run (Raised (JsError ErrorN ''No result received from stream'')) s' [req]
                          | Some v \<Rightarrow>
                              if \<not> truthy v
                              then Run (Raised (JsError ErrorN ''No result received from stream'')) s' [req]
                              else Run (Returned v) s' [req]))))"

text \<open>\<^verbatim>\<open>generateSlideImageServerProxy\<close>, lines 536-564.\<close>

definition generateSlideImageServerProxy ::
  "js_runtime \<Rightarrow> network \<Rightarrow> json \<Rightarrow> string \<Rightarrow> json \<Rightarrow> ApiConfig \<Rightarrow> json option call" where
  "generateSlideImageServerProxy rt net slide deckTitle presentationConfig apiConfig =
     (let req = \<lparr>url = ''/api/gen'',
                 http_method = ''POST'',
                 headers = [(''Content-Type'', ''application/json'')],
                 req_body = GenProxy slide deckTitle presentationConfig apiConfig,
                 signal = None\<rparr>
      in Call
           (case fetch rt net req of
              Raised e \<Rightarrow> Raised e
            | Hangs \<Rightarrow> Hangs
            | Returned response \<Rightarrow>
                if \<not> ok response then Raised (proxy_error rt response)
                else
                  (case response_json rt response of
                     Inl e \<Rightarrow> Raised e
                   | Inr data \<Rightarrow> settle (dot rt (Some data) ''imageData'')))
           [req])"

section \<open>The facade\<close>

text \<open>
  \<^verbatim>\<open>planPresentation\<close>, lines 571-598, and \<^verbatim>\<open>generateSlideImage\<close>, lines 603-628.
  The argument \<open>getApiConfig\<close> is what the call \<^verbatim>\<open>getApiConfig()\<close> of
  \<^verbatim>\<open>lib/config.ts\<close> returns: a configuration, or \<open>None\<close> for \<^verbatim>\<open>null\<close>.
\<close>

definition planPresentation ::
  "js_runtime \<Rightarrow> collaborators \<Rightarrow> network \<Rightarrow> ApiConfig option \<Rightarrow> string \<Rightarrow> json \<Rightarrow>
     's callback option \<Rightarrow> 's \<Rightarrow> (json, 's) run" where
  "planPresentation rt co net getApiConfig document presentationConfig onChunk s =
     (case getApiConfig of
        None \<Rightarrow> Run (Raised (JsError ErrorN ''API not configured'')) s []
      | Some apiConfig \<Rightarrow>
          if requestMode apiConfig = CLIENT_DIRECT
          then planPresentationClientDirect rt co net document presentationConfig apiConfig onChunk s
          else planPresentationServerProxy rt net document presentationConfig apiConfig onChunk s)"

definition generateSlideImage ::
  "js_runtime \<Rightarrow> collaborators \<Rightarrow> network \<Rightarrow> ApiConfig option \<Rightarrow> json \<Rightarrow> string \<Rightarrow> json \<Rightarrow>
     json option call" where
  "generateSlideImage rt co net getApiConfig slide deckTitle presentationConfig =
     (case getApiConfig of
        None \<Rightarrow> Call (Raised (JsError ErrorN ''API not configured'')) []
      | Some apiConfig \<Rightarrow>
          if requestMode apiConfig = CLIENT_DIRECT
          then generateSlideImageClientDirect rt co net slide deckTitle presentationConfig apiConfig
          else generateSlideImageServerProxy rt net slide deckTitle presentationConfig apiConfig)"

section \<open>The earlier OpenAI module\<close>

text \<open>
  \<^verbatim>\<open>src/lib/openai-api.ts\<close>: \<^verbatim>\<open>callOpenAIChatAPI\<close> (lines 32-81),
  \<^verbatim>\<open>extractText\<close> (lines 136-142) and \<^verbatim>\<open>planPresentationOpenAI\<close> (lines 147-167),
  which parses the text of a single-shot completion without any cleanup. Of its configuration
  only \<^verbatim>\<open>apiBase\<close>, \<^verbatim>\<open>apiKey\<close> and \<^verbatim>\<open>contentModelId\<close> are read.
\<close>

definition callOpenAIChatAPI ::
  "js_runtime \<Rightarrow> network \<Rightarrow> ApiConfig \<Rightarrow> string \<Rightarrow> json \<Rightarrow> json option \<Rightarrow> nat \<Rightarrow> json call" where
  "callOpenAIChatAPI rt net config model messages responseFormat timeoutMs =
     (let requestBody =
            JObj ([(''model'', JStr model), (''messages'', messages)] @
                  (case responseFormat of
                     None \<Rightarrow> []
                   | Some f \<Rightarrow> if truthy f then [(''response_format'', f)] else []));
          req = \<lparr>url = apiBase config @ ''/chat/completions'',
                 http_method = ''POST'',
                 headers = [(''Content-Type'', ''application/json''),
                            (''Authorization'', ''Bearer '' @ apiKey config)],
                 req_body = Json requestBody,
                 signal = Some timeoutMs\<rparr>
      in Call
           (case fetch rt net req of
              Raised e \<Rightarrow> Raised (timeout_catch timeoutMs e)
            | Hangs \<Rightarrow> Hangs
            | Returned response \<Rightarrow>
                if \<not> ok response
                then Raised (timeout_catch timeoutMs (call_api_error rt response))
                else settle (response_json rt response))
           [req])"

definition extractText :: "js_runtime \<Rightarrow> json \<Rightarrow> exn + json" where
  "extractText rt response =
     (case dot rt (Some response) ''choices'' of
        Inl e \<Rightarrow> Inl e
      | Inr choices \<Rightarrow>
          (case (if truthy_opt (qdot (qdot (qat0 choices) ''message'') ''content'')
                 then qdot (qdot (qat0 choices) ''message'') ''content'' else None) of
             None \<Rightarrow> Inl (JsError ErrorN ''No text in response'')
           | Some t \<Rightarrow> Inr t))"

definition planPresentationOpenAI ::
  "js_runtime \<Rightarrow> collaborators \<Rightarrow> network \<Rightarrow> ApiConfig \<Rightarrow> string \<Rightarrow> json \<Rightarrow> json call" where
  "planPresentationOpenAI rt co net config document presentationConfig =
     (let systemPrompt =
            buildPlanningSystemPrompt co presentationConfig @ getPlanningOutputFormatHint co;
          messages =
            JArr [JObj [(''role'', JStr ''system''), (''content'', JStr systemPrompt)],
                  JObj [(''role'', JStr ''user''),
                        (''content'', JStr (buildPlanningUserPrompt co document))]]
      in case callOpenAIChatAPI rt net config (contentModelId config) messages
                (Some (JObj [(''type'', JStr ''json_object'')])) 180000 of
           Call r reqs \<Rightarrow>
             (case r of
                Raised e \<Rightarrow> Call (Raised e) reqs
              | Hangs \<Rightarrow> Call Hangs reqs
              | Returned response \<Rightarrow>
                  (case extractText rt response of
                     Inl e \<Rightarrow> Call (Raised e) reqs
                   | Inr t \<Rightarrow>
                       (case to_text rt t of
                          Inl e \<Rightarrow> Call (Raised e) reqs
                        | Inr txt \<Rightarrow>
                            (case json_parse rt txt of
                               Inl m \<Rightarrow> Call (Raised (JsError SyntaxErrorN m)) reqs
                             | Inr v \<Rightarrow> Call (Returned v) reqs)))))"

section \<open>What the claims speak of\<close>

text \<open>
  The definitions of this section are not code of the repository. They are the notions in
  which the specification speaks about the code, written as functions of the whole response
  text so that the theorems can compare the incremental loop with them.
\<close>

text \<open>The lines that a text completes: all that \<^verbatim>\<open>split("\n")\<close> gives except the last.\<close>

definition complete_lines :: "string \<Rightarrow> string list" where
  "complete_lines t = butlast (split_nl t)"

definition stream_failure :: "body_stream \<Rightarrow> exn option" where
  "stream_failure b = (case ending b of EndOfStream \<Rightarrow> None | ReadError e \<Rightarrow> Some e)"

text \<open>
  A delta is a truthy value at the delta path of a wire shape that converts to text; it is
  kept with its text.
\<close>

definition delta_of :: "js_runtime \<Rightarrow> json option \<Rightarrow> (json \<times> string) option" where
  "delta_of rt v =
     (case v of
        None \<Rightarrow> None
      | Some x \<Rightarrow>
          if truthy x then (case to_text rt x of Inl e \<Rightarrow> None | Inr t \<Rightarrow> Some (x, t))
          else None)"

text \<open>The line classifiers of the two wire shapes.\<close>

definition vertex_delta :: "js_runtime \<Rightarrow> string \<Rightarrow> (json \<times> string) option" where
  "vertex_delta rt line =
     (if take 6 line = ''data: '' then
        (case json_parse rt (drop 6 line) of
           Inl m \<Rightarrow> None
         | Inr parsed \<Rightarrow>
             delta_of rt
               (qdot (qat0 (qdot (qdot (qat0 (qdot (Some parsed) ''candidates'')) ''content'')
                  ''parts'')) ''text''))
      else None)"

definition openai_delta :: "js_runtime \<Rightarrow> string \<Rightarrow> (json \<times> string) option" where
  "openai_delta rt line =
     (if take 6 line = ''data: '' \<and> drop 6 line \<noteq> ''[DONE]'' then
        (case json_parse rt (drop 6 line) of
           Inl m \<Rightarrow> None
         | Inr parsed \<Rightarrow>
             delta_of rt (qdot (qdot (qat0 (qdot (Some parsed) ''choices'')) ''delta'') ''content''))
      else None)"

text \<open>The deltas of a body, in the order of its lines.\<close>

definition deltas :: "(string \<Rightarrow> (json \<times> string) option) \<Rightarrow> body_stream \<Rightarrow> (json \<times> string) list" where
  "deltas classify b = List.map_filter classify (complete_lines (concat (chunks b)))"

text \<open>Calling the progress callback, when there is one, once for each value in turn.\<close>

fun notify :: "'s callback option \<Rightarrow> json list \<Rightarrow> 's \<Rightarrow> 's" where
  "notify onChunk [] s = s"
| "notify onChunk (v # vs) s =
     notify onChunk vs (case onChunk of None \<Rightarrow> s | Some f \<Rightarrow> snd (f v s))"

text \<open>The text that a direct planning call has accumulated when its body has been read.\<close>

definition plan_text :: "js_runtime \<Rightarrow> ApiProtocol \<Rightarrow> body_stream \<Rightarrow> string" where
  "plan_text rt p b =
     concat (map snd (deltas (if p = OPENAI then openai_delta rt else vertex_delta rt) b))"

text \<open>
  The \<^verbatim>\<open>NormalizedPlanResult\<close> shape of the specification: a string \<^verbatim>\<open>title\<close> and a
  sequence \<^verbatim>\<open>slides\<close>.
\<close>

definition normalized_plan_shape :: "json \<Rightarrow> bool" where
  "normalized_plan_shape v =
     (case field v ''title'' of
        Some (JStr t) \<Rightarrow> (case field v ''slides'' of Some (JArr sl) \<Rightarrow> True | _ \<Rightarrow> False)
      | _ \<Rightarrow> False)"

text \<open>
  The result that a line of the proxied stream carries when it is a record with both
  \<^verbatim>\<open>done\<close> and \<^verbatim>\<open>result\<close>.
\<close>

definition proxy_record :: "js_runtime \<Rightarrow> string \<Rightarrow> json option" where
  "proxy_record rt line =
     (if take 6 line = ''data: '' then
        (case json_parse rt (drop 6 line) of
           Inl m \<Rightarrow> None
         | Inr parsed \<Rightarrow>
             if truthy_opt (qdot (Some parsed) ''done'') \<and> truthy_opt (qdot (Some parsed) ''result'')
             then qdot (Some parsed) ''result'' else None)
      else None)"

text \<open>A part of a Vertex image response carries an image when its \<^verbatim>\<open>inlineData.data\<close> is truthy.\<close>

definition carries_image :: "json \<Rightarrow> bool" where
  "carries_image part = truthy_opt (qdot (qdot (Some part) ''inlineData'') ''data'')"

text \<open>The network did not answer within \<open>t\<close> milliseconds.\<close>

definition unanswered_within :: "nat \<Rightarrow> fetch_behaviour \<Rightarrow> bool" where
  "unanswered_within t b = (case b of Never \<Rightarrow> True | Settles d r \<Rightarrow> t \<le> d)"

section \<open>Concrete inputs\<close>

text \<open>
  A runtime for the examples. Its \<^verbatim>\<open>JSON.parse\<close> knows the texts of a table, each with
  the value that \<^verbatim>\<open>JSON.parse\<close> gives it, and rejects every other text: the empty text
  with the message that V8 gives it, any other with a message of its own. The examples feed
  it only texts of the table and texts that are not JSON, and they convert only strings to
  text.
\<close>

definition example_table :: "(string \<times> json) list" where
  \<open>example_table =
     [(''{"candidates":[{"content":{"parts":[{"text":"AB"}]}}]}'',
         JObj [(''candidates'', JArr [JObj [(''content'',
           JObj [(''parts'', JArr [JObj [(''text'', JStr ''AB'')]])])]])]),
      (''{"candidates":[{"content":{"parts":[{"text":"CD"}]}}]}'',
         JObj [(''candidates'', JArr [JObj [(''content'',
           JObj [(''parts'', JArr [JObj [(''text'', JStr ''CD'')]])])]])]),
      (''{"choices":[{"delta":{"content":"AB"}}]}'',
         JObj [(''choices'', JArr [JObj [(''delta'', JObj [(''content'', JStr ''AB'')])]])]),
      (''{"choices":[{"delta":{"content":"CD"}}]}'',
         JObj [(''choices'', JArr [JObj [(''delta'', JObj [(''content'', JStr ''CD'')])]])]),
      (''{"chunk":"AB"}'', JObj [(''chunk'', JStr ''AB'')]),
      (''{"done":true,"result":{}}'', JObj [(''done'', JBool True), (''result'', JObj [])]),
      (''{"done":true,"result":{"title":"T","slides":[]}}'',
         JObj [(''done'', JBool True),
               (''result'', JObj [(''title'', JStr ''T''), (''slides'', JArr [])])]),
      (''{"title":"T","slides":[]}'', JObj [(''title'', JStr ''T''), (''slides'', JArr [])]),
      (''{"candidates":[{"content":{"parts":[{"inlineData":{"mimeType":"image/jpeg","data":"QUJD"}}]}}]}'',
         JObj [(''candidates'', JArr [JObj [(''content'',
           JObj [(''parts'', JArr [JObj [(''inlineData'',
             JObj [(''mimeType'', JStr ''image/jpeg''), (''data'', JStr ''QUJD'')])]])])]])]),
      (''{"candidates":[{"content":{"parts":[{"text":"{}"}]}}]}'',
         JObj [(''candidates'', JArr [JObj [(''content'',
           JObj [(''parts'', JArr [JObj [(''text'', JStr ''{}'')]])])]])]),
      (''{"choices":[{"message":{"content":"not-json"}}]}'',
         JObj [(''choices'', JArr [JObj [(''message'', JObj [(''content'', JStr ''not-json'')])]])]),
      (''{"candidates":[{"content":{"parts":[{"text":"AB"},{"inlineData":{"data":"QUJD"}},{"inlineData":{"data":"REVG"}}]}}]}'',
         JObj [(''candidates'', JArr [JObj [(''content'',
           JObj [(''parts'', JArr [JObj [(''text'', JStr ''AB'')],
                                   JObj [(''inlineData'', JObj [(''data'', JStr ''QUJD'')])],
                                   JObj [(''inlineData'', JObj [(''data'', JStr ''REVG'')])]])])]])]),
      (''{}'', JObj [])]\<close>

definition example_runtime :: js_runtime where
  "example_runtime =
     \<lparr>json_parse =
        (\<lambda>t. case map_of example_table t of
                Some v \<Rightarrow> Inr v
              | None \<Rightarrow> Inl (if t = [] then ''Unexpected end of JSON input'' else ''Unexpected token'')),
      to_string = (\<lambda>v. Inr ''[object Object]''),
      nullish_read_message = (\<lambda>k. ''Cannot read properties of null (reading '' @ k @ '')''),
      not_iterable_message = ''object is not iterable'',
      abort_message = ''The operation was aborted.''\<rparr>"

text \<open>Collaborators for the examples; this cleanup finds nothing to strip.\<close>

definition example_collaborators :: collaborators where
  "example_collaborators =
     \<lparr>buildPlanningSystemPrompt = (\<lambda>c. ''plan''),
      buildPlanningUserPrompt = (\<lambda>d. d),
      getPlanningResponseSchema = JObj [],
      getPlanningOutputFormatHint = ''json'',
      buildImageGenerationPrompt = (\<lambda>sl t c. t),
      cleanJsonString = (\<lambda>t. t)\<rparr>"

definition example_config :: "ApiProtocol \<Rightarrow> RequestMode \<Rightarrow> ApiConfig" where
  "example_config p m =
     \<lparr>protocol = p, requestMode = m, apiBase = ''https://api.example/v1'', apiKey = ''key'',
      contentModelId = ''content-model'', imageModelId = ''image-model''\<rparr>"

text \<open>A network that answers every request after 100 ms with status 200 and the given body.\<close>

definition answering :: "string list \<Rightarrow> network" where
  "answering cs =
     (\<lambda>req. Settles 100
        (Inr \<lparr>ok = True, statusText = ''OK'',
              body = Some \<lparr>chunks = cs, ending = EndOfStream\<rparr>\<rparr>))"

text \<open>A network that never answers.\<close>

definition silent :: network where
  "silent = (\<lambda>req. Never)"

text \<open>A progress callback that records what it is given.\<close>

definition recording :: "json list callback" where
  "recording v seen = (None, seen @ [v])"

section \<open>The reading loop and the whole text\<close>

text \<open>
  However the network cuts the text into chunks, the reading loop runs the line body over the
  complete lines of the whole text, in order, and never over the unfinished last line.
\<close>

lemma split_nl_nonempty: "split_nl t \<noteq> []"
  by (induction t) (auto split: list.splits)

lemma split_nl_append:
  "split_nl (xs @ ys) = butlast (split_nl xs) @ split_nl (last (split_nl xs) @ ys)"
proof (induction xs)
  case Nil
  show ?case by simp
next
  case (Cons c xs)
  obtain l ls where S: "split_nl xs = l # ls"
    using split_nl_nonempty[of xs] by (cases "split_nl xs") auto
  obtain m ms where T: "split_nl (last (split_nl xs) @ ys) = m # ms"
    using split_nl_nonempty[of "last (split_nl xs) @ ys"] by (cases "split_nl (last (split_nl xs) @ ys)") auto
  show ?case
  proof (cases "c = CHR 0x0A")
    case True
    then show ?thesis using Cons S by simp
  next
    case False
    show ?thesis
    proof (cases ls)
      case Nil
      then show ?thesis using False Cons S T by simp
    next
      case (Cons l' ls')
      then show ?thesis using False Cons.IH S T by simp
    qed
  qed
qed

lemma last_split_nl_no_newline: "CHR 0x0A \<notin> set (last (split_nl t))"
  by (induction t) (auto split: list.splits simp: split_nl_nonempty)

lemma split_nl_no_newline: "CHR 0x0A \<notin> set t \<Longrightarrow> split_nl t = [t]"
  by (induction t) auto

lemma for_lines_append:
  "for_lines h st (xs @ ys) =
     (case for_lines h st xs of (Some e, st') \<Rightarrow> (Some e, st') | (None, st') \<Rightarrow> for_lines h st' ys)"
  by (induction xs arbitrary: st) (auto split: prod.splits option.splits)

lemma read_chunks_lines:
  "CHR 0x0A \<notin> set buffer \<Longrightarrow>
   (case read_chunks h buffer st cs of (x, buf, st') \<Rightarrow> (x, st')) =
   for_lines h st (complete_lines (buffer @ concat cs))"
proof (induction cs arbitrary: buffer st)
  case Nil
  then show ?case by (simp add: complete_lines_def split_nl_no_newline)
next
  case (Cons c cs)
  have split: "complete_lines (buffer @ c @ concat cs) =
      butlast (split_nl (buffer @ c)) @ complete_lines (last (split_nl (buffer @ c)) @ concat cs)"
    using split_nl_append[of "buffer @ c" "concat cs"]
    by (simp add: complete_lines_def butlast_append split_nl_nonempty)
  show ?case
  proof (cases "for_lines h st (butlast (split_nl (buffer @ c)))")
    case (Pair x st')
    show ?thesis
    proof (cases x)
      case None
      then show ?thesis
        using Pair Cons.IH[OF last_split_nl_no_newline, of "buffer @ c" st']
        by (simp add: split for_lines_append Let_def)
    next
      case (Some e)
      then show ?thesis using Pair by (simp add: split for_lines_append Let_def)
    qed
  qed
qed

lemma read_stream_lines:
  "read_stream h st b =
     (case for_lines h st (complete_lines (concat (chunks b))) of
        (Some e, st') \<Rightarrow> (Some e, st')
      | (None, st') \<Rightarrow> (stream_failure b, st'))"
proof -
  have "(case read_chunks h [] st (chunks b) of (x, buf, st') \<Rightarrow> (x, st')) =
        for_lines h st (complete_lines (concat (chunks b)))"
    using read_chunks_lines[of "[]" h st "chunks b"] by simp
  then show ?thesis
    by (auto simp: read_stream_def stream_failure_def split: prod.splits option.splits stream_end.splits)
qed


lemma guarded_deliver:
  "snd (case v of
          None \<Rightarrow> (None, ft, s)
        | Some c \<Rightarrow> if truthy c then deliver rt onChunk (ft, s) c else (None, ft, s)) =
     (case delta_of rt v of
        None \<Rightarrow> (ft, s)
      | Some (x, t) \<Rightarrow> (ft @ t, notify onChunk [x] s))"
  by (auto simp: deliver_def delta_of_def split: option.splits sum.splits prod.splits)

lemma dot_null: "dot rt (Some JNull) k = Inl (JsError TypeErrorN (nullish_read_message rt k))"
  by (simp add: dot_def)

lemma dot_value: "p \<noteq> JNull \<Longrightarrow> dot rt (Some p) k = Inr (qdot (Some p) k)"
  by (cases p) (simp_all add: dot_def qdot_def)

lemma qdot_null: "qdot (Some JNull) k = None"
  by (simp add: qdot_def)

lemma qdot_None: "qdot None k = None"
  by (simp add: qdot_def)

lemma qat0_None: "qat0 None = None"
  by (simp add: qat0_def)

lemma delta_of_None: "delta_of rt None = None"
  by (simp add: delta_of_def)

lemma vertex_try_delta:
  "snd (vertex_try rt onChunk (ft, s) data) =
     (case (case json_parse rt data of
              Inl m \<Rightarrow> None
            | Inr parsed \<Rightarrow>
                delta_of rt
                  (qdot (qat0 (qdot (qdot (qat0 (qdot (Some parsed) ''candidates'')) ''content'')
                     ''parts'')) ''text'')) of
        None \<Rightarrow> (ft, s)
      | Some (x, t) \<Rightarrow> (ft @ t, notify onChunk [x] s))"
proof (cases "json_parse rt data")
  case (Inl m)
  then show ?thesis by (simp add: vertex_try_def)
next
  case (Inr parsed)
  show ?thesis
  proof (cases "parsed = JNull")
    case True
    then show ?thesis
      using Inr by (simp add: vertex_try_def dot_null qdot_null qdot_None qat0_None delta_of_None)
  next
    case False
    then show ?thesis
      using Inr guarded_deliver[where v = "qdot (qat0 (qdot (qdot (qat0 (qdot (Some parsed) ''candidates'')) ''content'') ''parts'')) ''text''"]
      by (simp add: vertex_try_def dot_value)
  qed
qed

lemma openai_try_delta:
  "snd (openai_try rt onChunk (ft, s) data) =
     (case (case json_parse rt data of
              Inl m \<Rightarrow> None
            | Inr parsed \<Rightarrow>
                delta_of rt (qdot (qdot (qat0 (qdot (Some parsed) ''choices'')) ''delta'') ''content'')) of
        None \<Rightarrow> (ft, s)
      | Some (x, t) \<Rightarrow> (ft @ t, notify onChunk [x] s))"
proof (cases "json_parse rt data")
  case (Inl m)
  then show ?thesis by (simp add: openai_try_def)
next
  case (Inr parsed)
  show ?thesis
  proof (cases "parsed = JNull")
    case True
    then show ?thesis
      using Inr by (simp add: openai_try_def dot_null qdot_null qdot_None qat0_None delta_of_None)
  next
    case False
    then show ?thesis
      using Inr guarded_deliver[where v = "qdot (qdot (qat0 (qdot (Some parsed) ''choices'')) ''delta'') ''content''"]
      by (simp add: openai_try_def dot_value)
  qed
qed

lemma vertex_line_delta:
  "vertex_line rt onChunk (ft, s) line =
     (None, case vertex_delta rt line of
              None \<Rightarrow> (ft, s)
            | Some (v, t) \<Rightarrow> (ft @ t, notify onChunk [v] s))"
proof (cases "take 6 line = ''data: ''")
  case True
  obtain x st' where E: "vertex_try rt onChunk (ft, s) (drop 6 line) = (x, st')"
    by (cases "vertex_try rt onChunk (ft, s) (drop 6 line)")
  show ?thesis
    using True E vertex_try_delta[of rt onChunk ft s "drop 6 line"]
    by (simp add: vertex_line_def vertex_delta_def)
next
  case False
  then show ?thesis by (simp add: vertex_line_def vertex_delta_def)
qed

lemma openai_line_delta:
  "openai_line rt onChunk (ft, s) line =
     (None, case openai_delta rt line of
              None \<Rightarrow> (ft, s)
            | Some (v, t) \<Rightarrow> (ft @ t, notify onChunk [v] s))"
proof (cases "take 6 line = ''data: '' \<and> drop 6 line \<noteq> ''[DONE]''")
  case True
  obtain x st' where E: "openai_try rt onChunk (ft, s) (drop 6 line) = (x, st')"
    by (cases "openai_try rt onChunk (ft, s) (drop 6 line)")
  show ?thesis
    using True E openai_try_delta[of rt onChunk ft s "drop 6 line"]
    by (simp add: openai_line_def openai_delta_def)
next
  case False
  then show ?thesis by (auto simp: openai_line_def openai_delta_def)
qed

lemma notify_append: "notify onChunk (xs @ ys) s = notify onChunk ys (notify onChunk xs s)"
  by (induction xs arbitrary: s) auto

lemma for_lines_direct:
  assumes h: "\<And>ft s line. h (ft, s) line =
                (None, case classify line of
                         None \<Rightarrow> (ft, s)
                       | Some (v, t) \<Rightarrow> (ft @ t, notify onChunk [v] s))"
  shows "for_lines h (ft, s) ls =
           (None, ft @ concat (map snd (List.map_filter classify ls)),
            notify onChunk (map fst (List.map_filter classify ls)) s)"
proof (induction ls arbitrary: ft s)
  case Nil
  show ?case by simp
next
  case (Cons l ls)
  show ?case
  proof (cases "classify l")
    case None
    then show ?thesis using Cons[of ft s] by (simp add: h)
  next
    case (Some p)
    obtain v t where p: "p = (v, t)" by (cases p)
    show ?thesis
      using Some p Cons[of "ft @ t" "notify onChunk [v] s"]
      by (simp add: h)
  qed
qed

lemma read_stream_direct:
  assumes h: "\<And>ft s line. h (ft, s) line =
                (None, case classify line of
                         None \<Rightarrow> (ft, s)
                       | Some (v, t) \<Rightarrow> (ft @ t, notify onChunk [v] s))"
  shows "read_stream h (ft, s) b =
           (stream_failure b, ft @ concat (map snd (deltas classify b)),
            notify onChunk (map fst (deltas classify b)) s)"
  by (simp add: read_stream_lines for_lines_direct[OF h] deltas_def)

section \<open>Direct planning calls\<close>

text \<open>
  What a direct planning call gives is fixed by the answer of the network and the deltas of
  the body; the callback only shows in the observer.
\<close>

lemma read_plan_stream_run:
  assumes h: "\<And>ft s line. h (ft, s) line =
                (None, case classify line of
                         None \<Rightarrow> (ft, s)
                       | Some (v, t) \<Rightarrow> (ft @ t, notify onChunk [v] s))"
  shows "read_plan_stream h c s =
     (case reply c of
        Raised e \<Rightarrow> Run (Raised e) s (sent c)
      | Hangs \<Rightarrow> Run Hangs s (sent c)
      | Returned resp \<Rightarrow>
          (case body resp of
             None \<Rightarrow> Run (Raised (JsError ErrorN ''No response body'')) s (sent c)
           | Some b \<Rightarrow>
               Run (case stream_failure b of
                      Some e \<Rightarrow> Raised e
                    | None \<Rightarrow> Returned (concat (map snd (deltas classify b))))
                   (notify onChunk (map fst (deltas classify b)) s) (sent c)))"
  by (cases c)
     (simp add: read_plan_stream_def read_stream_direct[OF h]
           split: outcome.splits option.splits)

lemma read_plan_stream_issued:
  "issued (read_plan_stream h c s) = sent c"
  by (cases c) (simp add: read_plan_stream_def split: outcome.splits option.splits prod.splits)

lemma read_plan_stream_raised:
  "reply c = Raised e \<Longrightarrow> read_plan_stream h c s = Run (Raised e) s (sent c)"
  by (cases c) (simp add: read_plan_stream_def)

lemma finish_plan_outcome:
  "outcome (case X of Run r s' reqs \<Rightarrow>
              (case r of
                 Returned fullText \<Rightarrow> Run (parse_plan rt co fullText) s' reqs
               | Raised e \<Rightarrow> Run (Raised e) s' reqs
               | Hangs \<Rightarrow> Run Hangs s' reqs)) =
     (case outcome X of
        Returned fullText \<Rightarrow> parse_plan rt co fullText
      | Raised e \<Rightarrow> Raised e
      | Hangs \<Rightarrow> Hangs)"
  by (cases X) (simp split: outcome.splits)

lemma finish_plan_observer:
  "observer (case X of Run r s' reqs \<Rightarrow>
              (case r of
                 Returned fullText \<Rightarrow> Run (parse_plan rt co fullText) s' reqs
               | Raised e \<Rightarrow> Run (Raised e) s' reqs
               | Hangs \<Rightarrow> Run Hangs s' reqs)) = observer X"
  by (cases X) (simp split: outcome.splits)

lemma finish_plan_issued:
  "issued (case X of Run r s' reqs \<Rightarrow>
              (case r of
                 Returned fullText \<Rightarrow> Run (parse_plan rt co fullText) s' reqs
               | Raised e \<Rightarrow> Run (Raised e) s' reqs
               | Hangs \<Rightarrow> Run Hangs s' reqs)) = issued X"
  by (cases X) (simp split: outcome.splits)

lemma read_plan_stream_outcome_indep:
  "outcome (read_plan_stream (vertex_line rt onChunk) c s) =
   outcome (read_plan_stream (vertex_line rt onChunk') c s')"
  "outcome (read_plan_stream (openai_line rt onChunk) c s) =
   outcome (read_plan_stream (openai_line rt onChunk') c s')"
  "issued (read_plan_stream (vertex_line rt onChunk) c s) =
   issued (read_plan_stream (vertex_line rt onChunk') c s')"
  "issued (read_plan_stream (openai_line rt onChunk) c s) =
   issued (read_plan_stream (openai_line rt onChunk') c s')"
  by (simp_all add: read_plan_stream_run[OF vertex_line_delta] read_plan_stream_run[OF openai_line_delta]
        split: outcome.splits option.splits)

lemma clientStreamVertexAPI_returned:
  assumes "reply (clientStreamVertexAPI rt net cfg model requestBody t) = Returned resp"
  shows "\<exists>req. sent (clientStreamVertexAPI rt net cfg model requestBody t) = [req]
               \<and> fetch rt net req = Returned resp \<and> ok resp \<and> signal req = Some t"
  using assms
  by (auto simp: clientStreamVertexAPI_def Let_def split: outcome.splits if_splits)

lemma clientStreamOpenAIAPI_returned:
  assumes "reply (clientStreamOpenAIAPI rt net cfg model messages fmt t) = Returned resp"
  shows "\<exists>req. sent (clientStreamOpenAIAPI rt net cfg model messages fmt t) = [req]
               \<and> fetch rt net req = Returned resp \<and> ok resp \<and> signal req = Some t"
  using assms
  by (auto simp: clientStreamOpenAIAPI_def Let_def split: outcome.splits if_splits)

lemma read_plan_stream_returned:
  assumes h: "\<And>ft s line. h (ft, s) line =
                (None, case classify line of
                         None \<Rightarrow> (ft, s)
                       | Some (v, t) \<Rightarrow> (ft @ t, notify onChunk [v] s))"
    and r: "outcome (read_plan_stream h c s) = Returned fullText"
  shows "\<exists>resp b. reply c = Returned resp \<and> body resp = Some b \<and> stream_failure b = None
               \<and> fullText = concat (map snd (deltas classify b))
               \<and> issued (read_plan_stream h c s) = sent c"
  using r
  by (auto simp: read_plan_stream_run[OF h] split: outcome.splits option.splits)

lemma parse_plan_returned:
  "parse_plan rt co fullText = Returned v \<Longrightarrow> json_parse rt (cleanJsonString co fullText) = Inr v"
  by (auto simp: parse_plan_def split: sum.splits)

lemma direct_returned:
  assumes "outcome (planPresentationClientDirect rt co net document pc cfg onChunk s) = Returned v"
  shows "\<exists>req resp b.
           issued (planPresentationClientDirect rt co net document pc cfg onChunk s) = [req]
           \<and> fetch rt net req = Returned resp \<and> ok resp \<and> body resp = Some b
           \<and> stream_failure b = None
           \<and> json_parse rt (cleanJsonString co (plan_text rt (protocol cfg) b)) = Inr v"
proof (cases "protocol cfg = OPENAI")
  case True
  define c where "c = clientStreamOpenAIAPI rt net cfg (contentModelId cfg)
      (JArr [JObj [(''role'', JStr ''system''),
                   (''content'', JStr (buildPlanningSystemPrompt co pc @ getPlanningOutputFormatHint co))],
             JObj [(''role'', JStr ''user''), (''content'', JStr (buildPlanningUserPrompt co document))]])
      (Some (JObj [(''type'', JStr ''json_object'')])) 180000"
  define X where "X = read_plan_stream (openai_line rt onChunk) c s"
  have P: "planPresentationClientDirect rt co net document pc cfg onChunk s =
      (case X of Run r s' reqs \<Rightarrow>
              (case r of
                 Returned fullText \<Rightarrow> Run (parse_plan rt co fullText) s' reqs
               | Raised e \<Rightarrow> Run (Raised e) s' reqs
               | Hangs \<Rightarrow> Run Hangs s' reqs))"
    using True by (simp add: planPresentationClientDirect_def Let_def X_def c_def)
  from assms obtain fullText where ft: "outcome X = Returned fullText"
      and pp: "parse_plan rt co fullText = Returned v"
    unfolding P finish_plan_outcome by (auto split: outcome.splits)
  from read_plan_stream_returned[OF openai_line_delta ft[unfolded X_def]]
  obtain resp b where rb: "reply c = Returned resp" "body resp = Some b" "stream_failure b = None"
      "fullText = concat (map snd (deltas (openai_delta rt) b))" "issued X = sent c"
    unfolding X_def by blast
  from clientStreamOpenAIAPI_returned[OF rb(1)[unfolded c_def]]
  obtain req where rq: "sent c = [req]" "fetch rt net req = Returned resp" "ok resp"
    unfolding c_def by blast
  have "issued (planPresentationClientDirect rt co net document pc cfg onChunk s) = [req]"
    unfolding P finish_plan_issued using rb(5) rq(1) by simp
  moreover have "json_parse rt (cleanJsonString co (plan_text rt (protocol cfg) b)) = Inr v"
    using parse_plan_returned[OF pp] rb(4) True by (simp add: plan_text_def)
  ultimately show ?thesis using rq rb by blast
next
  case False
  define c where "c = clientStreamVertexAPI rt net cfg (contentModelId cfg)
      (JObj [(''systemInstruction'',
                JObj [(''parts'', JArr [JObj [(''text'', JStr (buildPlanningSystemPrompt co pc))]])]),
             (''contents'',
                JArr [JObj [(''role'', JStr ''user''),
                            (''parts'', JArr [JObj [(''text'', JStr (buildPlanningUserPrompt co document))]])]]),
             (''generationConfig'',
                JObj [(''responseMimeType'', JStr ''application/json''),
                      (''responseSchema'', getPlanningResponseSchema co)])])
      180000"
  define X where "X = read_plan_stream (vertex_line rt onChunk) c s"
  have P: "planPresentationClientDirect rt co net document pc cfg onChunk s =
      (case X of Run r s' reqs \<Rightarrow>
              (case r of
                 Returned fullText \<Rightarrow> Run (parse_plan rt co fullText) s' reqs
               | Raised e \<Rightarrow> Run (Raised e) s' reqs
               | Hangs \<Rightarrow> Run Hangs s' reqs))"
    using False by (simp add: planPresentationClientDirect_def Let_def X_def c_def)
  from assms obtain fullText where ft: "outcome X = Returned fullText"
      and pp: "parse_plan rt co fullText = Returned v"
    unfolding P finish_plan_outcome by (auto split: outcome.splits)
  from read_plan_stream_returned[OF vertex_line_delta ft[unfolded X_def]]
  obtain resp b where rb: "reply c = Returned resp" "body resp = Some b" "stream_failure b = None"
      "fullText = concat (map snd (deltas (vertex_delta rt) b))" "issued X = sent c"
    unfolding X_def by blast
  from clientStreamVertexAPI_returned[OF rb(1)[unfolded c_def]]
  obtain req where rq: "sent c = [req]" "fetch rt net req = Returned resp" "ok resp"
    unfolding c_def by blast
  have "issued (planPresentationClientDirect rt co net document pc cfg onChunk s) = [req]"
    unfolding P finish_plan_issued using rb(5) rq(1) by simp
  moreover have "json_parse rt (cleanJsonString co (plan_text rt (protocol cfg) b)) = Inr v"
    using parse_plan_returned[OF pp] rb(4) False by (simp add: plan_text_def)
  ultimately show ?thesis using rq rb by blast
qed

lemma clientStreamVertexAPI_answered:
  assumes "\<And>req. net req = Settles d (Inr resp)" "d < t" "ok resp"
  shows "reply (clientStreamVertexAPI rt net cfg model requestBody t) = Returned resp"
  using assms by (simp add: clientStreamVertexAPI_def Let_def fetch_def settle_def)

lemma clientStreamOpenAIAPI_answered:
  assumes "\<And>req. net req = Settles d (Inr resp)" "d < t" "ok resp"
  shows "reply (clientStreamOpenAIAPI rt net cfg model messages fmt t) = Returned resp"
  using assms by (simp add: clientStreamOpenAIAPI_def Let_def fetch_def settle_def)

lemma direct_answered:
  assumes net: "\<And>req. net req = Settles d (Inr resp)" and d: "d < 180000"
    and okr: "ok resp" and b: "body resp = Some b"
  shows "outcome (planPresentationClientDirect rt co net document pc cfg onChunk s) =
           (case stream_failure b of
              Some e \<Rightarrow> Raised e
            | None \<Rightarrow> parse_plan rt co (plan_text rt (protocol cfg) b))"
    and "observer (planPresentationClientDirect rt co net document pc cfg onChunk s) =
           notify onChunk
             (map fst (deltas (if protocol cfg = OPENAI then openai_delta rt else vertex_delta rt) b)) s"
  unfolding planPresentationClientDirect_def finish_plan_outcome finish_plan_observer
  using b
  by (simp_all add: Let_def plan_text_def
        read_plan_stream_run[OF vertex_line_delta] read_plan_stream_run[OF openai_line_delta]
        clientStreamVertexAPI_answered[where net = net, OF net d okr] clientStreamOpenAIAPI_answered[where net = net, OF net d okr]
        split: option.splits)

lemma callOpenAIChatAPI_answered:
  assumes "\<And>req. net req = Settles d (Inr resp)" "d < t" "ok resp"
  shows "reply (callOpenAIChatAPI rt net cfg model messages fmt t) = settle (response_json rt resp)"
  using assms by (simp add: callOpenAIChatAPI_def Let_def fetch_def settle_def)

lemma planPresentationOpenAI_answered:
  assumes net: "\<And>req. net req = Settles d (Inr resp)" and d: "d < 180000" and okr: "ok resp"
    and j: "response_json rt resp = Inr response"
  shows "reply (planPresentationOpenAI rt co net cfg document pc) =
           (case extractText rt response of
              Inl e \<Rightarrow> Raised e
            | Inr t \<Rightarrow>
                (case to_text rt t of
                   Inl e \<Rightarrow> Raised e
                 | Inr txt \<Rightarrow>
                     (case json_parse rt txt of
                        Inl m \<Rightarrow> Raised (JsError SyntaxErrorN m)
                      | Inr v \<Rightarrow> Returned v)))"
proof -
  define c where "c = callOpenAIChatAPI rt net cfg (contentModelId cfg)
      (JArr [JObj [(''role'', JStr ''system''),
                   (''content'', JStr (buildPlanningSystemPrompt co pc @ getPlanningOutputFormatHint co))],
             JObj [(''role'', JStr ''user''), (''content'', JStr (buildPlanningUserPrompt co document))]])
      (Some (JObj [(''type'', JStr ''json_object'')])) 180000"
  have r: "reply c = Returned response"
    unfolding c_def
    using callOpenAIChatAPI_answered[where net = net and rt = rt, OF net d okr] j
    by (simp add: settle_def)
  obtain reqs where c: "c = Call (Returned response) reqs"
    using r by (cases c) simp
  show ?thesis
    using c unfolding c_def
    by (simp add: planPresentationOpenAI_def Let_def split: sum.splits)
qed

section \<open>Proxied planning calls\<close>

text \<open>
  The variable \<^verbatim>\<open>result\<close> only ever changes to the truthy result of a done-and-result
  record of the line just read.
\<close>

lemma proxy_try_result:
  assumes "proxy_try rt onChunk (res, s) data = (x, res', s')"
  shows "res' = res \<or>
         (x = None \<and> truthy_opt res' \<and>
          (case json_parse rt data of
             Inl m \<Rightarrow> None
           | Inr parsed \<Rightarrow>
               if truthy_opt (qdot (Some parsed) ''done'') \<and> truthy_opt (qdot (Some parsed) ''result'')
               then qdot (Some parsed) ''result'' else None) = res')"
proof (cases "json_parse rt data")
  case (Inl m)
  then show ?thesis using assms by (simp add: proxy_try_def)
next
  case (Inr parsed)
  show ?thesis
  proof (cases "parsed = JNull")
    case True
    then show ?thesis using assms Inr by (simp add: proxy_try_def dot_null)
  next
    case False
    have q: "\<And>k. qdot (Some parsed) k = field parsed k"
      using False by (cases parsed) (simp_all add: qdot_def)
    show ?thesis
      using assms Inr False
      by (auto simp: proxy_try_def dot_value q split: option.splits sum.splits prod.splits if_splits)
  qed
qed

lemma proxy_line_result:
  assumes "proxy_line rt onChunk (res, s) line = (x, res', s')"
  shows "res' = res \<or> (x = None \<and> truthy_opt res' \<and> proxy_record rt line = res')"
proof (cases "take 6 line = ''data: ''")
  case False
  then show ?thesis using assms by (simp add: proxy_line_def)
next
  case True
  obtain y r t where E: "proxy_try rt onChunk (res, s) (drop 6 line) = (y, r, t)"
    by (cases "proxy_try rt onChunk (res, s) (drop 6 line)")
  have r: "r = res'"
    using assms True E by (auto simp: proxy_line_def split: option.splits if_splits)
  have "y = None \<Longrightarrow> x = None"
    using assms True E by (auto simp: proxy_line_def split: option.splits if_splits)
  then show ?thesis
    using proxy_try_result[OF E] True r by (auto simp: proxy_record_def)
qed

lemma for_lines_proxy_result:
  assumes "for_lines (proxy_line rt onChunk) (res, s) ls = (x, res', s')"
  shows "res' = res \<or> (truthy_opt res' \<and> (\<exists>line \<in> set ls. proxy_record rt line = res'))"
  using assms
proof (induction ls arbitrary: res s)
  case Nil
  then show ?case by simp
next
  case (Cons l ls)
  obtain y r t where E: "proxy_line rt onChunk (res, s) l = (y, r, t)"
    by (cases "proxy_line rt onChunk (res, s) l")
  from proxy_line_result[OF E] have step: "r = res \<or> (y = None \<and> truthy_opt r \<and> proxy_record rt l = r)" .
  show ?case
  proof (cases y)
    case (Some e)
    then show ?thesis using Cons.prems E step by auto
  next
    case None
    then have "for_lines (proxy_line rt onChunk) (r, t) ls = (x, res', s')"
      using Cons.prems E by simp
    from Cons.IH[OF this] show ?thesis using step by auto
  qed
qed

lemma read_stream_proxy_result:
  assumes "read_stream (proxy_line rt onChunk) (None, s) b = (x, res', s')"
  shows "res' = None \<or>
         (truthy_opt res' \<and> (\<exists>line \<in> set (complete_lines (concat (chunks b))). proxy_record rt line = res'))"
proof -
  obtain y r t where E: "for_lines (proxy_line rt onChunk) (None, s) (complete_lines (concat (chunks b))) = (y, r, t)"
    by (cases "for_lines (proxy_line rt onChunk) (None, s) (complete_lines (concat (chunks b)))")
  have "r = res'"
    using assms E by (auto simp: read_stream_lines split: option.splits)
  then show ?thesis using for_lines_proxy_result[OF E] by simp
qed

lemma proxy_issued:
  "issued (planPresentationServerProxy rt net document pc cfg onChunk s) =
     [\<lparr>url = ''/api/plan'', http_method = ''POST'',
       headers = [(''Content-Type'', ''application/json'')],
       req_body = PlanProxy document pc cfg, signal = None\<rparr>]"
  by (auto simp: planPresentationServerProxy_def Let_def
           split: outcome.splits option.splits prod.splits)

lemma proxy_returned:
  assumes "outcome (planPresentationServerProxy rt net document pc cfg onChunk s) = Returned v"
  shows "\<exists>req resp b.
           issued (planPresentationServerProxy rt net document pc cfg onChunk s) = [req]
           \<and> fetch rt net req = Returned resp \<and> ok resp \<and> body resp = Some b
           \<and> truthy v
           \<and> (\<exists>line \<in> set (complete_lines (concat (chunks b))). proxy_record rt line = Some v)"
proof -
  define req where "req = \<lparr>url = ''/api/plan'', http_method = ''POST'',
      headers = [(''Content-Type'', ''application/json'')],
      req_body = PlanProxy document pc cfg, signal = None\<rparr>"
  have iss: "issued (planPresentationServerProxy rt net document pc cfg onChunk s) = [req]"
    by (auto simp: planPresentationServerProxy_def Let_def req_def
             split: outcome.splits option.splits prod.splits)
  from assms obtain resp where f: "fetch rt net req = Returned resp"
    by (cases "fetch rt net req") (auto simp: planPresentationServerProxy_def Let_def req_def)
  from assms f have okr: "ok resp"
    by (auto simp: planPresentationServerProxy_def Let_def req_def split: if_splits)
  from assms f okr obtain b where b: "body resp = Some b"
    by (cases "body resp") (auto simp: planPresentationServerProxy_def Let_def req_def)
  obtain x res s' where E: "read_stream (proxy_line rt onChunk) (None, s) b = (x, res, s')"
    by (cases "read_stream (proxy_line rt onChunk) (None, s) b")
  from assms f okr b E have rv: "res = Some v" "truthy v"
    by (auto simp: planPresentationServerProxy_def Let_def req_def split: option.splits if_splits)
  from read_stream_proxy_result[OF E] rv
  have "\<exists>line \<in> set (complete_lines (concat (chunks b))). proxy_record rt line = Some v"
    by auto
  then show ?thesis using iss f okr b rv by blast
qed

lemma proxy_no_record:
  assumes iss: "issued (planPresentationServerProxy rt net document pc cfg onChunk s) = [req]"
    and f: "fetch rt net req = Returned resp" and okr: "ok resp" and b: "body resp = Some b"
    and none: "\<forall>line \<in> set (complete_lines (concat (chunks b))). proxy_record rt line = None"
  shows "outcome (planPresentationServerProxy rt net document pc cfg onChunk s) =
           (case fst (read_stream (proxy_line rt onChunk) (None, s) b) of
              Some e \<Rightarrow> Raised e
            | None \<Rightarrow> Raised (JsError ErrorN ''No result received from stream''))"
proof -
  obtain x res s' where E: "read_stream (proxy_line rt onChunk) (None, s) b = (x, res, s')"
    by (cases "read_stream (proxy_line rt onChunk) (None, s) b")
  have res: "res = None"
    using read_stream_proxy_result[OF E] none by (auto simp: truthy_opt_def)
  have "fetch rt net \<lparr>url = ''/api/plan'', http_method = ''POST'',
       headers = [(''Content-Type'', ''application/json'')],
       req_body = PlanProxy document pc cfg, signal = None\<rparr> = Returned resp"
    using iss f by (simp add: proxy_issued)
  then show ?thesis
    using okr b E res by (simp add: planPresentationServerProxy_def Let_def split: option.splits)
qed

section \<open>Lines without effect\<close>

lemma for_lines_skip:
  assumes "\<And>st. h st line = (None, st)"
  shows "for_lines h st (pre @ line # post) = for_lines h st (pre @ post)"
  by (simp add: for_lines_append assms split: prod.splits option.splits)

lemma read_stream_skip:
  assumes skip: "\<And>st. h st line = (None, st)"
    and b: "complete_lines (concat (chunks b)) = pre @ line # post"
    and b': "complete_lines (concat (chunks b')) = pre @ post"
    and e: "ending b' = ending b"
  shows "read_stream h st b = read_stream h st b'"
proof -
  have "stream_failure b' = stream_failure b"
    using e by (simp add: stream_failure_def)
  then show ?thesis
    by (simp add: read_stream_lines b b' for_lines_skip[of h, OF skip]
          split: prod.splits option.splits)
qed

lemma vertex_line_unparsable:
  assumes "take 6 line = ''data: ''" "json_parse rt (drop 6 line) = Inl m"
  shows "vertex_line rt onChunk st line = (None, st)"
  using assms by (cases st) (simp add: vertex_line_delta vertex_delta_def)

lemma openai_line_unparsable:
  assumes "take 6 line = ''data: ''" "json_parse rt (drop 6 line) = Inl m"
  shows "openai_line rt onChunk st line = (None, st)"
  using assms by (cases st) (simp add: openai_line_delta openai_delta_def)

lemma proxy_line_unparsable:
  assumes "take 6 line = ''data: ''" "json_parse rt (drop 6 line) = Inl m"
  shows "proxy_line rt onChunk st line =
           (if m = ''Unexpected end of JSON input'' then None else Some (JsError SyntaxErrorN m), st)"
  using assms by (cases st) (simp add: proxy_line_def proxy_try_def rethrown_def)

section \<open>Timeouts\<close>

declare show_nat.simps [simp del]

lemma show_nat_digit: "n < 10 \<Longrightarrow> show_nat n = [digit n]"
  by (simp add: show_nat.simps)

lemma show_nat_more: "\<not> n < 10 \<Longrightarrow> show_nat n = show_nat (n div 10) @ [digit n]"
  by (subst show_nat.simps) simp

lemma seconds_text_default: "seconds_text 180000 = ''180''"
  by (simp add: seconds_text_def show_nat_more show_nat_digit digit_def)

lemma timeout_catch_abort:
  "timeout_catch 180000 (JsError AbortErrorN m) = JsError ErrorN ''Request timeout after 180 seconds''"
  by (simp add: timeout_catch_def seconds_text_default)

lemma fetch_unanswered:
  "unanswered_within t (net req) \<Longrightarrow> signal req = Some t \<Longrightarrow>
   fetch rt net req = Raised (JsError AbortErrorN (abort_message rt))"
  by (auto simp: fetch_def unanswered_within_def split: fetch_behaviour.splits)

lemma wrappers_signal:
  "\<forall>r \<in> set (sent (clientStreamVertexAPI rt net cfg model requestBody t)). signal r = Some t"
  "\<forall>r \<in> set (sent (clientStreamOpenAIAPI rt net cfg model messages fmt t)). signal r = Some t"
  "\<forall>r \<in> set (sent (clientCallVertexAPI rt net cfg model requestBody t)). signal r = Some t"
  "\<forall>r \<in> set (sent (clientCallOpenAIImageAPI rt net cfg model prompt t)). signal r = Some t"
  by (simp_all add: clientStreamVertexAPI_def clientStreamOpenAIAPI_def clientCallVertexAPI_def
        clientCallOpenAIImageAPI_def Let_def)

lemma wrappers_timeout:
  assumes "\<And>req. unanswered_within 180000 (net req)"
  shows "reply (clientStreamVertexAPI rt net cfg model requestBody 180000) =
           Raised (JsError ErrorN ''Request timeout after 180 seconds'')"
    and "reply (clientStreamOpenAIAPI rt net cfg model messages fmt 180000) =
           Raised (JsError ErrorN ''Request timeout after 180 seconds'')"
    and "reply (clientCallVertexAPI rt net cfg model requestBody 180000) =
           Raised (JsError ErrorN ''Request timeout after 180 seconds'')"
    and "reply (clientCallOpenAIImageAPI rt net cfg model prompt 180000) =
           Raised (JsError ErrorN ''Request timeout after 180 seconds'')"
  by (simp_all add: clientStreamVertexAPI_def clientStreamOpenAIAPI_def clientCallVertexAPI_def
        clientCallOpenAIImageAPI_def Let_def fetch_unanswered[where net = net, OF assms] timeout_catch_abort)

lemma direct_plan_signal:
  "\<forall>r \<in> set (issued (planPresentationClientDirect rt co net document pc cfg onChunk s)).
     signal r = Some 180000"
  unfolding planPresentationClientDirect_def finish_plan_issued
  by (simp add: Let_def read_plan_stream_issued wrappers_signal(1,2))

lemma direct_plan_timeout:
  assumes "\<And>req. unanswered_within 180000 (net req)"
  shows "outcome (planPresentationClientDirect rt co net document pc cfg onChunk s) =
           Raised (JsError ErrorN ''Request timeout after 180 seconds'')"
    and "observer (planPresentationClientDirect rt co net document pc cfg onChunk s) = s"
  unfolding planPresentationClientDirect_def finish_plan_outcome finish_plan_observer
  by (simp_all add: Let_def read_plan_stream_raised[OF wrappers_timeout(1)[where net = net, OF assms]]
        read_plan_stream_raised[OF wrappers_timeout(2)[where net = net, OF assms]])

lemma direct_image_signal:
  "\<forall>r \<in> set (sent (generateSlideImageClientDirect rt co net slide deckTitle pc cfg)).
     signal r = Some 180000"
proof (cases "protocol cfg = OPENAI")
  case True
  obtain r reqs where c: "clientCallOpenAIImageAPI rt net cfg (imageModelId cfg)
      (buildImageGenerationPrompt co slide deckTitle pc) 180000 = Call r reqs"
    by (cases "clientCallOpenAIImageAPI rt net cfg (imageModelId cfg)
      (buildImageGenerationPrompt co slide deckTitle pc) 180000")
  have "\<forall>q \<in> set reqs. signal q = Some 180000"
    using wrappers_signal(4)[where rt = rt and net = net and cfg = cfg and model = "imageModelId cfg"
        and prompt = "buildImageGenerationPrompt co slide deckTitle pc" and t = 180000] c by simp
  then show ?thesis
    using True c by (simp add: generateSlideImageClientDirect_def Let_def split: outcome.splits)
next
  case False
  obtain r reqs where c: "clientCallVertexAPI rt net cfg (imageModelId cfg)
      (JObj [(''contents'',
                JArr [JObj [(''role'', JStr ''user''),
                            (''parts'', JArr [JObj [(''text'', JStr (buildImageGenerationPrompt co slide deckTitle pc))]])]]),
             (''generationConfig'',
                JObj [(''responseModalities'', JArr [JStr ''IMAGE'', JStr ''TEXT''])])]) 180000 = Call r reqs"
    by (cases "clientCallVertexAPI rt net cfg (imageModelId cfg)
      (JObj [(''contents'',
                JArr [JObj [(''role'', JStr ''user''),
                            (''parts'', JArr [JObj [(''text'', JStr (buildImageGenerationPrompt co slide deckTitle pc))]])]]),
             (''generationConfig'',
                JObj [(''responseModalities'', JArr [JStr ''IMAGE'', JStr ''TEXT''])])]) 180000")
  have "\<forall>q \<in> set reqs. signal q = Some 180000"
    using wrappers_signal(3)[where rt = rt and net = net and cfg = cfg and model = "imageModelId cfg"
        and t = 180000] c
    by (metis call.sel(2))
  then show ?thesis
    using False c by (simp add: generateSlideImageClientDirect_def Let_def split: outcome.splits)
qed

lemma direct_image_timeout:
  assumes "\<And>req. unanswered_within 180000 (net req)"
  shows "reply (generateSlideImageClientDirect rt co net slide deckTitle pc cfg) =
           Raised (JsError ErrorN ''Request timeout after 180 seconds'')"
proof (cases "protocol cfg = OPENAI")
  case True
  obtain r reqs where c: "clientCallOpenAIImageAPI rt net cfg (imageModelId cfg)
      (buildImageGenerationPrompt co slide deckTitle pc) 180000 = Call r reqs"
    by (cases "clientCallOpenAIImageAPI rt net cfg (imageModelId cfg)
      (buildImageGenerationPrompt co slide deckTitle pc) 180000")
  have "r = Raised (JsError ErrorN ''Request timeout after 180 seconds'')"
    using wrappers_timeout(4)[where net = net and rt = rt and cfg = cfg and model = "imageModelId cfg"
        and prompt = "buildImageGenerationPrompt co slide deckTitle pc", OF assms] c by simp
  then show ?thesis
    using True c by (simp add: generateSlideImageClientDirect_def Let_def)
next
  case False
  obtain r reqs where c: "clientCallVertexAPI rt net cfg (imageModelId cfg)
      (JObj [(''contents'',
                JArr [JObj [(''role'', JStr ''user''),
                            (''parts'', JArr [JObj [(''text'', JStr (buildImageGenerationPrompt co slide deckTitle pc))]])]]),
             (''generationConfig'',
                JObj [(''responseModalities'', JArr [JStr ''IMAGE'', JStr ''TEXT''])])]) 180000 = Call r reqs"
    by (cases "clientCallVertexAPI rt net cfg (imageModelId cfg)
      (JObj [(''contents'',
                JArr [JObj [(''role'', JStr ''user''),
                            (''parts'', JArr [JObj [(''text'', JStr (buildImageGenerationPrompt co slide deckTitle pc))]])]]),
             (''generationConfig'',
                JObj [(''responseModalities'', JArr [JStr ''IMAGE'', JStr ''TEXT''])])]) 180000")
  have "r = Raised (JsError ErrorN ''Request timeout after 180 seconds'')"
    using wrappers_timeout(3)[where net = net and rt = rt and cfg = cfg and model = "imageModelId cfg", OF assms] c
    by (metis call.sel(1))
  then show ?thesis
    using False c by (simp add: generateSlideImageClientDirect_def Let_def)
qed

lemma proxy_image_sent:
  "sent (generateSlideImageServerProxy rt net slide deckTitle pc cfg) =
     [\<lparr>url = ''/api/gen'', http_method = ''POST'',
       headers = [(''Content-Type'', ''application/json'')],
       req_body = GenProxy slide deckTitle pc cfg, signal = None\<rparr>]"
  by (simp add: generateSlideImageServerProxy_def Let_def)

lemma proxy_silent:
  assumes "\<And>req. net req = Never"
  shows "outcome (planPresentationServerProxy rt net document pc cfg onChunk s) = Hangs"
    and "reply (generateSlideImageServerProxy rt net slide deckTitle pc cfg) = Hangs"
  by (simp_all add: planPresentationServerProxy_def generateSlideImageServerProxy_def Let_def
        fetch_def assms)

section \<open>Image extraction\<close>

lemma scan_parts_skip:
  assumes "\<forall>q \<in> set pre. q \<noteq> JNull \<and> \<not> carries_image q"
  shows "scan_parts rt (pre @ rest) = scan_parts rt rest"
  using assms
proof (induction pre)
  case Nil
  show ?case by simp
next
  case (Cons q pre)
  then have q: "q \<noteq> JNull" "\<not> truthy_opt (qdot (qdot (Some q) ''inlineData'') ''data'')"
    by (simp_all add: carries_image_def)
  show ?case using Cons q by (simp add: dot_value)
qed

lemma scan_parts_none:
  assumes "\<forall>q \<in> set ps. q \<noteq> JNull \<and> \<not> carries_image q"
  shows "scan_parts rt ps = Inr None"
  using scan_parts_skip[OF assms, of rt "[]"] by simp

lemma scan_parts_hit:
  assumes inl: "qdot (Some p) ''inlineData'' = Some inl"
    and dat: "qdot (Some inl) ''data'' = Some (JStr d)" and d: "d \<noteq> []"
    and mt: "qdot (Some inl) ''mimeType'' = mt" "mt = None \<or> (\<exists>m. mt = Some (JStr m))"
  shows "scan_parts rt (p # post) =
           Inr (Some (''data:'' @
                      (case mt of Some (JStr m) \<Rightarrow> if m = [] then ''image/png'' else m
                                | _ \<Rightarrow> ''image/png'') @
                      '';base64,'' @ d))"
proof -
  have p: "p \<noteq> JNull" using inl by (auto simp: qdot_def)
  show ?thesis
    using assms p
    by (auto simp: dot_value truthy_opt_def or_else_def to_text_def)
qed

lemma extractImage_parts:
  assumes "qdot (qdot (qat0 (qdot (Some response) ''candidates'')) ''content'') ''parts'' = Some (JArr ps)"
  shows "extractImage rt response = scan_parts rt ps"
proof -
  have "response \<noteq> JNull" using assms by (auto simp: qdot_def qat0_def)
  then show ?thesis
    using assms by (simp add: extractImage_def dot_value iterate_def or_else_def)
qed

lemma extractImage_no_parts:
  assumes "response \<noteq> JNull"
    and "qdot (qdot (qat0 (qdot (Some response) ''candidates'')) ''content'') ''parts'' = None"
  shows "extractImage rt response = Inr None"
  using assms by (simp add: extractImage_def dot_value iterate_def or_else_def)

lemma extractImage_first_image:
  assumes parts:
      "qdot (qdot (qat0 (qdot (Some response) ''candidates'')) ''content'') ''parts'' = Some (JArr ps)"
    and ps: "ps = pre @ p # post"
    and pre: "\<forall>q \<in> set pre. q \<noteq> JNull \<and> \<not> carries_image q"
    and hit: "qdot (Some p) ''inlineData'' = Some inl" "qdot (Some inl) ''data'' = Some (JStr d)"
      "d \<noteq> []" "qdot (Some inl) ''mimeType'' = mt" "mt = None \<or> (\<exists>m. mt = Some (JStr m))"
  shows "extractImage rt response =
           Inr (Some (''data:'' @
                      (case mt of Some (JStr m) \<Rightarrow> if m = [] then ''image/png'' else m
                                | _ \<Rightarrow> ''image/png'') @
                      '';base64,'' @ d))"
proof -
  have "extractImage rt response = scan_parts rt (pre @ p # post)"
    using ps extractImage_parts[OF parts] by simp
  also have "\<dots> = scan_parts rt (p # post)"
    by (rule scan_parts_skip[OF pre])
  finally show ?thesis
    by (simp only: scan_parts_hit[OF hit])
qed

lemma clientCallVertexAPI_answered:
  assumes "\<And>req. net req = Settles d (Inr resp)" "d < t" "ok resp"
  shows "reply (clientCallVertexAPI rt net cfg model requestBody t) = settle (response_json rt resp)"
  using assms by (simp add: clientCallVertexAPI_def Let_def fetch_def settle_def)

lemma direct_vertex_image_answered:
  assumes net: "\<And>req. net req = Settles d (Inr resp)" and d: "d < 180000" and okr: "ok resp"
    and j: "response_json rt resp = Inr response" and v: "protocol cfg \<noteq> OPENAI"
  shows "reply (generateSlideImageClientDirect rt co net slide deckTitle pc cfg) =
           vertex_image rt response"
proof -
  obtain r reqs where c: "clientCallVertexAPI rt net cfg (imageModelId cfg)
      (JObj [(''contents'',
                JArr [JObj [(''role'', JStr ''user''),
                            (''parts'', JArr [JObj [(''text'', JStr (buildImageGenerationPrompt co slide deckTitle pc))]])]]),
             (''generationConfig'',
                JObj [(''responseModalities'', JArr [JStr ''IMAGE'', JStr ''TEXT''])])]) 180000 = Call r reqs"
    by (cases "clientCallVertexAPI rt net cfg (imageModelId cfg)
      (JObj [(''contents'',
                JArr [JObj [(''role'', JStr ''user''),
                            (''parts'', JArr [JObj [(''text'', JStr (buildImageGenerationPrompt co slide deckTitle pc))]])]]),
             (''generationConfig'',
                JObj [(''responseModalities'', JArr [JStr ''IMAGE'', JStr ''TEXT''])])]) 180000")
  have "r = Returned response"
    using clientCallVertexAPI_answered[where net = net and rt = rt and cfg = cfg
        and model = "imageModelId cfg" and t = 180000, OF net d okr] c j
    by (metis call.sel(1) settle_def sum.case(2))
  then show ?thesis
    using v c by (simp add: generateSlideImageClientDirect_def Let_def)
qed

section \<open>Evaluating the concrete inputs\<close>

lemma example_parse:
  \<open>json_parse example_runtime ''{"candidates":[{"content":{"parts":[{"text":"AB"}]}}]}'' =
     Inr (JObj [(''candidates'', JArr [JObj [(''content'',
           JObj [(''parts'', JArr [JObj [(''text'', JStr ''AB'')]])])]])])\<close>
  \<open>json_parse example_runtime ''{"candidates":[{"content":{"parts":[{"text":"CD"}]}}]}'' =
     Inr (JObj [(''candidates'', JArr [JObj [(''content'',
           JObj [(''parts'', JArr [JObj [(''text'', JStr ''CD'')]])])]])])\<close>
  \<open>json_parse example_runtime ''{"candidates":[{"content":{"parts":[{"text":"{}"}]}}]}'' =
     Inr (JObj [(''candidates'', JArr [JObj [(''content'',
           JObj [(''parts'', JArr [JObj [(''text'', JStr ''{}'')]])])]])])\<close>
  \<open>json_parse example_runtime ''{"choices":[{"delta":{"content":"AB"}}]}'' =
     Inr (JObj [(''choices'', JArr [JObj [(''delta'', JObj [(''content'', JStr ''AB'')])]])])\<close>
  \<open>json_parse example_runtime ''{"choices":[{"delta":{"content":"CD"}}]}'' =
     Inr (JObj [(''choices'', JArr [JObj [(''delta'', JObj [(''content'', JStr ''CD'')])]])])\<close>
  \<open>json_parse example_runtime ''{"chunk":"AB"}'' = Inr (JObj [(''chunk'', JStr ''AB'')])\<close>
  \<open>json_parse example_runtime ''{"done":true,"result":{}}'' =
     Inr (JObj [(''done'', JBool True), (''result'', JObj [])])\<close>
  \<open>json_parse example_runtime ''{"done":true,"result":{"title":"T","slides":[]}}'' =
     Inr (JObj [(''done'', JBool True),
               (''result'', JObj [(''title'', JStr ''T''), (''slides'', JArr [])])])\<close>
  \<open>json_parse example_runtime ''{"candidates":[{"content":{"parts":[{"inlineData":{"mimeType":"image/jpeg","data":"QUJD"}}]}}]}'' =
     Inr (JObj [(''candidates'', JArr [JObj [(''content'',
           JObj [(''parts'', JArr [JObj [(''inlineData'',
             JObj [(''mimeType'', JStr ''image/jpeg''), (''data'', JStr ''QUJD'')])]])])]])])\<close>
  \<open>json_parse example_runtime ''{"choices":[{"message":{"content":"not-json"}}]}'' =
     Inr (JObj [(''choices'', JArr [JObj [(''message'', JObj [(''content'', JStr ''not-json'')])]])])\<close>
  \<open>json_parse example_runtime ''{"candidates":[{"content":{"parts":[{"text":"AB"},{"inlineData":{"data":"QUJD"}},{"inlineData":{"data":"REVG"}}]}}]}'' =
     Inr (JObj [(''candidates'', JArr [JObj [(''content'',
           JObj [(''parts'', JArr [JObj [(''text'', JStr ''AB'')],
                                   JObj [(''inlineData'', JObj [(''data'', JStr ''QUJD'')])],
                                   JObj [(''inlineData'', JObj [(''data'', JStr ''REVG'')])]])])]])])\<close>
  \<open>json_parse example_runtime ''{}'' = Inr (JObj [])\<close>
  \<open>json_parse example_runtime '''' = Inl ''Unexpected end of JSON input''\<close>
  \<open>json_parse example_runtime ''not-json'' = Inl ''Unexpected token''\<close>
  by (simp_all add: example_runtime_def example_table_def)

lemmas run_defs =
  planPresentation_def planPresentationClientDirect_def planPresentationServerProxy_def
  read_plan_stream_def clientStreamVertexAPI_def clientStreamOpenAIAPI_def fetch_def settle_def
  answering_def silent_def example_config_def example_collaborators_def recording_def
  read_stream_def vertex_line_def vertex_try_def openai_line_def openai_try_def
  proxy_line_def proxy_try_def rethrown_def deliver_def dot_def qdot_def qat0_def to_text_def
  truthy_opt_def parse_plan_def Let_def example_parse

lemmas notion_defs =
  plan_text_def deltas_def complete_lines_def vertex_delta_def openai_delta_def delta_of_def
  proxy_record_def stream_failure_def unanswered_within_def carries_image_def
  qdot_def qat0_def to_text_def truthy_opt_def example_parse example_collaborators_def
  example_config_def answering_def silent_def recording_def

section \<open>The claims\<close>

subsection \<open>C1: the shape of the planning result\<close>

text \<open>
  C1, as the code has it. A planning call that returns gives back, in direct mode, the value
  that \<^verbatim>\<open>JSON.parse\<close> gives for the cleaned reassembled text and, in proxied mode, the
  truthy \<^verbatim>\<open>result\<close> of a done-and-result record of the stream; and in direct mode every
  value that the parse gives is returned as it is. On no path is the value checked for a
  string \<^verbatim>\<open>title\<close> or a sequence \<^verbatim>\<open>slides\<close>.
\<close>

theorem C1_plan_result_is_the_parsed_value:
  "(outcome (planPresentation rt co net getApiConfig document pc onChunk s) = Returned v \<longrightarrow>
      (\<exists>cfg req resp b.
          getApiConfig = Some cfg
        \<and> issued (planPresentation rt co net getApiConfig document pc onChunk s) = [req]
        \<and> fetch rt net req = Returned resp \<and> ok resp \<and> body resp = Some b
        \<and> (if requestMode cfg = CLIENT_DIRECT
           then stream_failure b = None
              \<and> json_parse rt (cleanJsonString co (plan_text rt (protocol cfg) b)) = Inr v
           else truthy v
              \<and> (\<exists>line \<in> set (complete_lines (concat (chunks b))). proxy_record rt line = Some v))))
   \<and> (getApiConfig = Some cfg' \<and> requestMode cfg' = CLIENT_DIRECT
        \<and> (\<forall>req. net req = Settles d (Inr resp')) \<and> d < 180000
        \<and> ok resp' \<and> body resp' = Some b' \<and> stream_failure b' = None
        \<and> json_parse rt (cleanJsonString co (plan_text rt (protocol cfg') b')) = Inr w \<longrightarrow>
      outcome (planPresentation rt co net getApiConfig document pc onChunk s) = Returned w)"
proof (intro conjI impI)
  assume r: "outcome (planPresentation rt co net getApiConfig document pc onChunk s) = Returned v"
  then obtain cfg where cfg: "getApiConfig = Some cfg"
    by (cases getApiConfig) (auto simp: planPresentation_def)
  show "\<exists>cfg req resp b.
          getApiConfig = Some cfg
        \<and> issued (planPresentation rt co net getApiConfig document pc onChunk s) = [req]
        \<and> fetch rt net req = Returned resp \<and> ok resp \<and> body resp = Some b
        \<and> (if requestMode cfg = CLIENT_DIRECT
           then stream_failure b = None
              \<and> json_parse rt (cleanJsonString co (plan_text rt (protocol cfg) b)) = Inr v
           else truthy v
              \<and> (\<exists>line \<in> set (complete_lines (concat (chunks b))). proxy_record rt line = Some v))"
  proof (cases "requestMode cfg = CLIENT_DIRECT")
    case True
    then have P: "planPresentation rt co net getApiConfig document pc onChunk s =
        planPresentationClientDirect rt co net document pc cfg onChunk s"
      using cfg by (simp add: planPresentation_def)
    from direct_returned[OF r[unfolded P]] show ?thesis
      unfolding P using cfg True by auto
  next
    case False
    then have P: "planPresentation rt co net getApiConfig document pc onChunk s =
        planPresentationServerProxy rt net document pc cfg onChunk s"
      using cfg by (simp add: planPresentation_def)
    from proxy_returned[OF r[unfolded P]] show ?thesis
      unfolding P using cfg False by auto
  qed
next
  assume a: "getApiConfig = Some cfg' \<and> requestMode cfg' = CLIENT_DIRECT
        \<and> (\<forall>req. net req = Settles d (Inr resp')) \<and> d < 180000
        \<and> ok resp' \<and> body resp' = Some b' \<and> stream_failure b' = None
        \<and> json_parse rt (cleanJsonString co (plan_text rt (protocol cfg') b')) = Inr w"
  then have net: "\<And>req. net req = Settles d (Inr resp')" by simp
  from a have x: "d < 180000" "ok resp'" "body resp' = Some b'" by simp_all
  show "outcome (planPresentation rt co net getApiConfig document pc onChunk s) = Returned w"
    using a by (simp add: planPresentation_def parse_plan_def direct_answered(1)[where net = net, OF net x])
qed

text \<open>An instance: a direct call whose text is \<^verbatim>\<open>{}\<close>.\<close>

theorem C1_witness:
  \<open>outcome (planPresentation example_runtime example_collaborators
       (answering [''data: {"candidates":[{"content":{"parts":[{"text":"{}"}]}}]}\<newline>''])
       (Some (example_config VERTEX_AI CLIENT_DIRECT)) ''doc'' JNull (Some recording) []) =
     Returned (JObj [])
   \<and> (\<exists>cfg req resp b.
          Some (example_config VERTEX_AI CLIENT_DIRECT) = Some cfg
        \<and> issued (planPresentation example_runtime example_collaborators
             (answering [''data: {"candidates":[{"content":{"parts":[{"text":"{}"}]}}]}\<newline>''])
             (Some (example_config VERTEX_AI CLIENT_DIRECT)) ''doc'' JNull (Some recording) []) = [req]
        \<and> fetch example_runtime
             (answering [''data: {"candidates":[{"content":{"parts":[{"text":"{}"}]}}]}\<newline>'']) req =
             Returned resp
        \<and> ok resp \<and> body resp = Some b
        \<and> (if requestMode cfg = CLIENT_DIRECT
           then stream_failure b = None
              \<and> json_parse example_runtime
                   (cleanJsonString example_collaborators (plan_text example_runtime (protocol cfg) b)) =
                 Inr (JObj [])
           else truthy (JObj [])
              \<and> (\<exists>line \<in> set (complete_lines (concat (chunks b))).
                    proxy_record example_runtime line = Some (JObj []))))\<close>
proof -
  let ?cs = \<open>[''data: {"candidates":[{"content":{"parts":[{"text":"{}"}]}}]}\<newline>'']\<close>
  let ?cfg = "example_config VERTEX_AI CLIENT_DIRECT"
  let ?b = "\<lparr>chunks = ?cs, ending = EndOfStream\<rparr>"
  let ?resp = "\<lparr>ok = True, statusText = ''OK'', body = Some ?b\<rparr>"
  have h: "Some ?cfg = Some ?cfg \<and> requestMode ?cfg = CLIENT_DIRECT
        \<and> (\<forall>req. answering ?cs req = Settles 100 (Inr ?resp)) \<and> (100::nat) < 180000
        \<and> ok ?resp \<and> body ?resp = Some ?b \<and> stream_failure ?b = None
        \<and> json_parse example_runtime
             (cleanJsonString example_collaborators (plan_text example_runtime (protocol ?cfg) ?b)) =
           Inr (JObj [])"
    by (simp add: notion_defs)
  note inst = C1_plan_result_is_the_parsed_value[where rt = example_runtime
      and co = example_collaborators and net = "answering ?cs" and getApiConfig = "Some ?cfg"
      and document = "''doc''" and pc = JNull and onChunk = "Some recording" and s = "[]"
      and v = "JObj []" and w = "JObj []" and cfg' = ?cfg and d = 100 and resp' = ?resp and b' = ?b]
  note out = inst[THEN conjunct2, THEN mp, OF h]
  note inv = inst[THEN conjunct1, THEN mp, OF out]
  show ?thesis by (rule conjI[OF out inv])
qed

text \<open>
  The claim as first stated fails: in direct mode as in proxied mode the call returns the
  empty object, which has neither \<^verbatim>\<open>title\<close> nor \<^verbatim>\<open>slides\<close>.
\<close>

theorem C1_counterexample:
  \<open>outcome (planPresentation example_runtime example_collaborators
       (answering [''data: {"candidates":[{"content":{"parts":[{"text":"{}"}]}}]}\<newline>''])
       (Some (example_config VERTEX_AI CLIENT_DIRECT)) ''doc'' JNull (Some recording) []) =
     Returned (JObj [])
   \<and> outcome (planPresentation example_runtime example_collaborators
       (answering [''data: {"done":true,"result":{}}\<newline>''])
       (Some (example_config OPENAI SERVER_PROXY)) ''doc'' JNull (Some recording) []) =
     Returned (JObj [])
   \<and> \<not> normalized_plan_shape (JObj [])\<close>
  by (simp add: run_defs normalized_plan_shape_def)

subsection \<open>C2: text that does not parse\<close>

text \<open>
  C2, as the code has it. When the cleaned reassembled text of a direct planning call fails
  to parse, the \<^verbatim>\<open>SyntaxError\<close> of \<^verbatim>\<open>JSON.parse\<close>, with the parser's message, reaches
  the caller unchanged; there is no separate error for malformed model output. The same
  holds for \<^verbatim>\<open>planPresentationOpenAI\<close> of the earlier module, which parses the completion
  text without cleanup.
\<close>

theorem C2_parse_failure_propagates:
  assumes net: "\<And>req. net req = Settles d (Inr resp)" and d: "d < 180000" and okr: "ok resp"
  shows "(body resp = Some b \<and> stream_failure b = None
          \<and> json_parse rt (cleanJsonString co (plan_text rt (protocol cfg) b)) = Inl m \<longrightarrow>
            outcome (planPresentationClientDirect rt co net document pc cfg onChunk s) =
              Raised (JsError SyntaxErrorN m))
       \<and> (response_json rt resp = Inr response \<and> extractText rt response = Inr (JStr t)
          \<and> json_parse rt t = Inl m' \<longrightarrow>
            reply (planPresentationOpenAI rt co net cfg document pc) =
              Raised (JsError SyntaxErrorN m'))"
proof (intro conjI impI)
  assume a: "body resp = Some b \<and> stream_failure b = None
          \<and> json_parse rt (cleanJsonString co (plan_text rt (protocol cfg) b)) = Inl m"
  then have b: "body resp = Some b" by simp
  show "outcome (planPresentationClientDirect rt co net document pc cfg onChunk s) =
              Raised (JsError SyntaxErrorN m)"
    using a by (simp add: parse_plan_def direct_answered(1)[where net = net, OF net d okr b])
next
  assume a: "response_json rt resp = Inr response \<and> extractText rt response = Inr (JStr t)
          \<and> json_parse rt t = Inl m'"
  then have j: "response_json rt resp = Inr response" by simp
  show "reply (planPresentationOpenAI rt co net cfg document pc) = Raised (JsError SyntaxErrorN m')"
    using a by (simp add: planPresentationOpenAI_answered[where net = net, OF net d okr j] to_text_def)
qed

text \<open>An instance: an empty body, and a completion whose text is \<^verbatim>\<open>not-json\<close>.\<close>

theorem C2_witness:
  \<open>(\<forall>req. answering [] req =
       Settles 100 (Inr \<lparr>ok = True, statusText = ''OK'',
                         body = Some \<lparr>chunks = [], ending = EndOfStream\<rparr>\<rparr>))
   \<and> json_parse example_runtime
        (cleanJsonString example_collaborators
           (plan_text example_runtime VERTEX_AI \<lparr>chunks = [], ending = EndOfStream\<rparr>)) =
      Inl ''Unexpected end of JSON input''
   \<and> outcome (planPresentationClientDirect example_runtime example_collaborators (answering [])
        ''doc'' JNull (example_config VERTEX_AI CLIENT_DIRECT) (Some recording) []) =
      Raised (JsError SyntaxErrorN ''Unexpected end of JSON input'')
   \<and> reply (planPresentationOpenAI example_runtime example_collaborators
        (answering [''{"choices":[{"message":{"content":"not-json"}}]}''])
        (example_config OPENAI CLIENT_DIRECT) ''doc'' JNull) =
      Raised (JsError SyntaxErrorN ''Unexpected token'')\<close>
proof -
  let ?b = "\<lparr>chunks = [], ending = EndOfStream\<rparr>"
  let ?resp = "\<lparr>ok = True, statusText = ''OK'', body = Some ?b\<rparr>"
  let ?cs = \<open>[''{"choices":[{"message":{"content":"not-json"}}]}'']\<close>
  let ?resp2 = "\<lparr>ok = True, statusText = ''OK'', body = Some \<lparr>chunks = ?cs, ending = EndOfStream\<rparr>\<rparr>"
  let ?r2 = "JObj [(''choices'', JArr [JObj [(''message'', JObj [(''content'', JStr ''not-json'')])]])]"
  have net: "\<And>req. answering [] req = Settles 100 (Inr ?resp)"
    by (simp add: answering_def)
  have net2: "\<And>req. answering ?cs req = Settles 100 (Inr ?resp2)"
    by (simp add: answering_def)
  have p: "json_parse example_runtime
        (cleanJsonString example_collaborators
           (plan_text example_runtime VERTEX_AI ?b)) =
      Inl ''Unexpected end of JSON input''"
    by (simp add: notion_defs)
  have h1: "body ?resp = Some ?b \<and> stream_failure ?b = None
      \<and> json_parse example_runtime
        (cleanJsonString example_collaborators
           (plan_text example_runtime (protocol (example_config VERTEX_AI CLIENT_DIRECT)) ?b)) =
      Inl ''Unexpected end of JSON input''"
    using p by (simp add: stream_failure_def example_config_def)
  have h2: "response_json example_runtime ?resp2 = Inr ?r2
      \<and> extractText example_runtime ?r2 = Inr (JStr ''not-json'')
      \<and> json_parse example_runtime ''not-json'' = Inl ''Unexpected token''"
    by (simp add: response_json_def response_text_def example_parse extractText_def dot_def
          qdot_def qat0_def truthy_opt_def)
  have "(100::nat) < 180000" by simp
  note a = C2_parse_failure_propagates[where net = "answering []" and rt = example_runtime
      and co = example_collaborators and cfg = "example_config VERTEX_AI CLIENT_DIRECT"
      and document = "''doc''" and pc = JNull and onChunk = "Some recording" and s = "[]",
      OF net \<open>100 < 180000\<close>, THEN conjunct1, THEN mp, OF _ h1]
  note b = C2_parse_failure_propagates[where net = "answering ?cs" and rt = example_runtime
      and co = example_collaborators and cfg = "example_config OPENAI CLIENT_DIRECT"
      and document = "''doc''" and pc = JNull,
      OF net2 \<open>100 < 180000\<close>, THEN conjunct2, THEN mp, OF _ h2]
  have a': "outcome (planPresentationClientDirect example_runtime example_collaborators (answering [])
        ''doc'' JNull (example_config VERTEX_AI CLIENT_DIRECT) (Some recording) []) =
      Raised (JsError SyntaxErrorN ''Unexpected end of JSON input'')"
    by (rule a) simp
  have b': "reply (planPresentationOpenAI example_runtime example_collaborators (answering ?cs)
        (example_config OPENAI CLIENT_DIRECT) ''doc'' JNull) =
      Raised (JsError SyntaxErrorN ''Unexpected token'')"
    by (rule b) simp
  from net p a' b' show ?thesis by (intro conjI allI)
qed

text \<open>
  The claim as first stated fails: what the caller gets for an empty text is the parser's
  own exception.
\<close>

theorem C2_counterexample:
  \<open>outcome (planPresentation example_runtime example_collaborators (answering [])
       (Some (example_config VERTEX_AI CLIENT_DIRECT)) ''doc'' JNull (Some recording) []) =
     Raised (JsError SyntaxErrorN ''Unexpected end of JSON input'')\<close>
  by (simp add: run_defs)

subsection \<open>C3: timeouts\<close>

text \<open>
  C3, as the code has it. In direct mode every request of a planning or image call carries
  an abort signal with a timer of 180000 ms, and when the network does not answer within
  that time the call raises the error \<^verbatim>\<open>Request timeout after 180 seconds\<close>, the progress
  callback not having been called. In proxied mode the requests carry no signal, and a call
  whose request is never answered never settles.
\<close>

theorem C3_direct_calls_time_out_proxied_calls_do_not:
  "(requestMode cfg = CLIENT_DIRECT \<longrightarrow>
      (\<forall>r \<in> set (issued (planPresentation rt co net (Some cfg) document pc onChunk s)).
         signal r = Some 180000)
    \<and> (\<forall>r \<in> set (sent (generateSlideImage rt co net (Some cfg) slide deckTitle pc)).
         signal r = Some 180000)
    \<and> ((\<forall>req. unanswered_within 180000 (net req)) \<longrightarrow>
         outcome (planPresentation rt co net (Some cfg) document pc onChunk s) =
           Raised (JsError ErrorN ''Request timeout after 180 seconds'')
       \<and> observer (planPresentation rt co net (Some cfg) document pc onChunk s) = s
       \<and> reply (generateSlideImage rt co net (Some cfg) slide deckTitle pc) =
           Raised (JsError ErrorN ''Request timeout after 180 seconds'')))
   \<and> (requestMode cfg = SERVER_PROXY \<longrightarrow>
      (\<forall>r \<in> set (issued (planPresentation rt co net (Some cfg) document pc onChunk s)).
         signal r = None)
    \<and> (\<forall>r \<in> set (sent (generateSlideImage rt co net (Some cfg) slide deckTitle pc)).
         signal r = None)
    \<and> ((\<forall>req. net req = Never) \<longrightarrow>
         outcome (planPresentation rt co net (Some cfg) document pc onChunk s) = Hangs
       \<and> reply (generateSlideImage rt co net (Some cfg) slide deckTitle pc) = Hangs))"
proof (intro conjI impI)
  assume m: "requestMode cfg = CLIENT_DIRECT"
  show "\<forall>r \<in> set (issued (planPresentation rt co net (Some cfg) document pc onChunk s)).
         signal r = Some 180000"
    using m direct_plan_signal[of rt co net document pc cfg onChunk s]
    by (simp add: planPresentation_def)
  show "\<forall>r \<in> set (sent (generateSlideImage rt co net (Some cfg) slide deckTitle pc)).
         signal r = Some 180000"
    using m direct_image_signal[of rt co net slide deckTitle pc cfg]
    by (simp add: generateSlideImage_def)
  assume "\<forall>req. unanswered_within 180000 (net req)"
  then have slow: "\<And>req. unanswered_within 180000 (net req)" by simp
  show "outcome (planPresentation rt co net (Some cfg) document pc onChunk s) =
           Raised (JsError ErrorN ''Request timeout after 180 seconds'')"
    using m by (simp add: planPresentation_def direct_plan_timeout(1)[where net = net, OF slow])
  show "observer (planPresentation rt co net (Some cfg) document pc onChunk s) = s"
    using m by (simp add: planPresentation_def direct_plan_timeout(2)[where net = net, OF slow])
  show "reply (generateSlideImage rt co net (Some cfg) slide deckTitle pc) =
           Raised (JsError ErrorN ''Request timeout after 180 seconds'')"
    using m by (simp add: generateSlideImage_def direct_image_timeout[where net = net, OF slow])
next
  assume m: "requestMode cfg = SERVER_PROXY"
  show "\<forall>r \<in> set (issued (planPresentation rt co net (Some cfg) document pc onChunk s)).
         signal r = None"
    using m by (simp add: planPresentation_def proxy_issued)
  show "\<forall>r \<in> set (sent (generateSlideImage rt co net (Some cfg) slide deckTitle pc)).
         signal r = None"
    using m by (simp add: generateSlideImage_def proxy_image_sent)
  assume "\<forall>req. net req = Never"
  then have silent: "\<And>req. net req = Never" by simp
  show "outcome (planPresentation rt co net (Some cfg) document pc onChunk s) = Hangs"
    using m by (simp add: planPresentation_def proxy_silent(1)[where net = net, OF silent])
  show "reply (generateSlideImage rt co net (Some cfg) slide deckTitle pc) = Hangs"
    using m by (simp add: generateSlideImage_def proxy_silent(2)[where net = net, OF silent])
qed

text \<open>An instance: the network that never answers, in direct and in proxied mode.\<close>

theorem C3_witness:
  "requestMode (example_config VERTEX_AI CLIENT_DIRECT) = CLIENT_DIRECT
   \<and> (\<forall>req. unanswered_within 180000 (silent req))
   \<and> map signal (issued (planPresentation example_runtime example_collaborators silent
        (Some (example_config VERTEX_AI CLIENT_DIRECT)) ''doc'' JNull (Some recording) [])) =
      [Some 180000]
   \<and> outcome (planPresentation example_runtime example_collaborators silent
        (Some (example_config VERTEX_AI CLIENT_DIRECT)) ''doc'' JNull (Some recording) []) =
      Raised (JsError ErrorN ''Request timeout after 180 seconds'')
   \<and> observer (planPresentation example_runtime example_collaborators silent
        (Some (example_config VERTEX_AI CLIENT_DIRECT)) ''doc'' JNull (Some recording) []) = []
   \<and> reply (generateSlideImage example_runtime example_collaborators silent
        (Some (example_config VERTEX_AI CLIENT_DIRECT)) JNull ''deck'' JNull) =
      Raised (JsError ErrorN ''Request timeout after 180 seconds'')
   \<and> requestMode (example_config VERTEX_AI SERVER_PROXY) = SERVER_PROXY
   \<and> (\<forall>req. silent req = Never)
   \<and> outcome (planPresentation example_runtime example_collaborators silent
        (Some (example_config VERTEX_AI SERVER_PROXY)) ''doc'' JNull (Some recording) []) = Hangs
   \<and> reply (generateSlideImage example_runtime example_collaborators silent
        (Some (example_config VERTEX_AI SERVER_PROXY)) JNull ''deck'' JNull) = Hangs"
proof -
  have d: "requestMode (example_config VERTEX_AI CLIENT_DIRECT) = CLIENT_DIRECT"
    and p: "requestMode (example_config VERTEX_AI SERVER_PROXY) = SERVER_PROXY"
    by (simp_all add: example_config_def)
  have slow: "\<forall>req. unanswered_within 180000 (silent req)"
    and never: "\<forall>req. silent req = Never"
    by (simp_all add: silent_def unanswered_within_def)
  note direct = C3_direct_calls_time_out_proxied_calls_do_not[
      where cfg = "example_config VERTEX_AI CLIENT_DIRECT" and net = silent
        and rt = example_runtime and co = example_collaborators and document = "''doc''"
        and pc = JNull and onChunk = "Some recording" and s = "[]" and slide = JNull
        and deckTitle = "''deck''", THEN conjunct1, THEN mp, OF d]
  note proxied = C3_direct_calls_time_out_proxied_calls_do_not[
      where cfg = "example_config VERTEX_AI SERVER_PROXY" and net = silent
        and rt = example_runtime and co = example_collaborators and document = "''doc''"
        and pc = JNull and onChunk = "Some recording" and s = "[]" and slide = JNull
        and deckTitle = "''deck''", THEN conjunct2, THEN mp, OF p]
  have sig: "map signal (issued (planPresentation example_runtime example_collaborators silent
        (Some (example_config VERTEX_AI CLIENT_DIRECT)) ''doc'' JNull (Some recording) [])) =
      [Some 180000]"
    by (simp add: run_defs timeout_catch_def)
  from direct proxied slow never d p sig show ?thesis by simp
qed

text \<open>
  The claim as first stated fails: a proxied planning call on a network that never answers
  raises no timeout error, and its request carries no signal.
\<close>

theorem C3_counterexample:
  \<open>outcome (planPresentation example_runtime example_collaborators silent
       (Some (example_config OPENAI SERVER_PROXY)) ''doc'' JNull (Some recording) []) = Hangs
   \<and> map signal (issued (planPresentation example_runtime example_collaborators silent
       (Some (example_config OPENAI SERVER_PROXY)) ''doc'' JNull (Some recording) [])) = [None]\<close>
  by (simp add: run_defs)

subsection \<open>C4: order of reassembly\<close>

text \<open>
  C4. Stream reassembly is order-preserving. For every body fed to either direct planning
  loop, cut into chunks in any way, the accumulated text is the concatenation of the texts of
  the deltas that the complete lines carry, in the order of the lines, and the progress
  callback has been called once for each of these deltas, with the delta itself, in the same
  order. So the observer of a direct planning call that is answered with that body is left
  as these calls leave it.
\<close>

theorem C4_stream_reassembly_order_preserving:
  "read_stream (vertex_line rt onChunk) ([], s) b =
     (stream_failure b,
      concat (map snd (deltas (vertex_delta rt) b)),
      notify onChunk (map fst (deltas (vertex_delta rt) b)) s)
   \<and> read_stream (openai_line rt onChunk) ([], s) b =
     (stream_failure b,
      concat (map snd (deltas (openai_delta rt) b)),
      notify onChunk (map fst (deltas (openai_delta rt) b)) s)
   \<and> ((\<forall>req. net req = Settles d (Inr resp)) \<and> d < 180000 \<and> ok resp \<and> body resp = Some b \<longrightarrow>
        observer (planPresentationClientDirect rt co net document pc cfg onChunk s) =
          notify onChunk
            (map fst (deltas (if protocol cfg = OPENAI then openai_delta rt else vertex_delta rt) b)) s)"
proof (intro conjI impI)
  show "read_stream (vertex_line rt onChunk) ([], s) b =
     (stream_failure b,
      concat (map snd (deltas (vertex_delta rt) b)),
      notify onChunk (map fst (deltas (vertex_delta rt) b)) s)"
    by (simp add: read_stream_direct[OF vertex_line_delta])
  show "read_stream (openai_line rt onChunk) ([], s) b =
     (stream_failure b,
      concat (map snd (deltas (openai_delta rt) b)),
      notify onChunk (map fst (deltas (openai_delta rt) b)) s)"
    by (simp add: read_stream_direct[OF openai_line_delta])
next
  assume a: "(\<forall>req. net req = Settles d (Inr resp)) \<and> d < 180000 \<and> ok resp \<and> body resp = Some b"
  then have net: "\<And>req. net req = Settles d (Inr resp)" by simp
  from a have x: "d < 180000" "ok resp" "body resp = Some b" by simp_all
  show "observer (planPresentationClientDirect rt co net document pc cfg onChunk s) =
          notify onChunk
            (map fst (deltas (if protocol cfg = OPENAI then openai_delta rt else vertex_delta rt) b)) s"
    by (rule direct_answered(2)[where net = net, OF net x])
qed

text \<open>
  The example of the specification, the deltas \<^verbatim>\<open>AB\<close> and \<^verbatim>\<open>CD\<close>, and the same deltas
  in an OpenAI-style stream cut inside a line.
\<close>

theorem C4_witness:
  \<open>read_stream (vertex_line example_runtime (Some recording)) ([], [])
       \<lparr>chunks = [''data: {"candidates":[{"content":{"parts":[{"text":"AB"}]}}]}\<newline>'',
                  ''data: {"candidates":[{"content":{"parts":[{"text":"CD"}]}}]}\<newline>''],
        ending = EndOfStream\<rparr> =
     (None, ''ABCD'', [JStr ''AB'', JStr ''CD''])
   \<and> observer (planPresentationClientDirect example_runtime example_collaborators
        (answering [''data: {"choices":[{"delta":{"content":"AB"}}]}\<newline>da'',
                    ''ta: {"choices":[{"delta":{"content":"CD"}}]}\<newline>data: [DONE]\<newline>''])
        ''doc'' JNull (example_config OPENAI CLIENT_DIRECT) (Some recording) []) =
     [JStr ''AB'', JStr ''CD'']\<close>
proof -
  let ?b = \<open>\<lparr>chunks = [''data: {"candidates":[{"content":{"parts":[{"text":"AB"}]}}]}\<newline>'',
                  ''data: {"candidates":[{"content":{"parts":[{"text":"CD"}]}}]}\<newline>''],
        ending = EndOfStream\<rparr>\<close>
  let ?cs = \<open>[''data: {"choices":[{"delta":{"content":"AB"}}]}\<newline>da'',
              ''ta: {"choices":[{"delta":{"content":"CD"}}]}\<newline>data: [DONE]\<newline>'']\<close>
  let ?b2 = "\<lparr>chunks = ?cs, ending = EndOfStream\<rparr>"
  let ?resp = "\<lparr>ok = True, statusText = ''OK'', body = Some ?b2\<rparr>"
  let ?cfg = "example_config OPENAI CLIENT_DIRECT"
  have "read_stream (vertex_line example_runtime (Some recording)) ([], []) ?b =
     (stream_failure ?b,
      concat (map snd (deltas (vertex_delta example_runtime) ?b)),
      notify (Some recording) (map fst (deltas (vertex_delta example_runtime) ?b)) [])"
    by (rule C4_stream_reassembly_order_preserving[THEN conjunct1])
  also have "\<dots> = (None, ''ABCD'', [JStr ''AB'', JStr ''CD''])"
    by (simp add: notion_defs)
  finally have one: "read_stream (vertex_line example_runtime (Some recording)) ([], []) ?b =
     (None, ''ABCD'', [JStr ''AB'', JStr ''CD''])" .
  have h: "(\<forall>req. answering ?cs req = Settles 100 (Inr ?resp)) \<and> (100::nat) < 180000
      \<and> ok ?resp \<and> body ?resp = Some ?b2"
    by (simp add: answering_def)
  have "observer (planPresentationClientDirect example_runtime example_collaborators
        (answering ?cs) ''doc'' JNull ?cfg (Some recording) []) =
      notify (Some recording)
        (map fst (deltas (if protocol ?cfg = OPENAI then openai_delta example_runtime
                          else vertex_delta example_runtime) ?b2)) []"
    by (rule C4_stream_reassembly_order_preserving[THEN conjunct2, THEN conjunct2, THEN mp, OF h])
  also have "\<dots> = [JStr ''AB'', JStr ''CD'']"
    by (simp add: notion_defs)
  finally have two: "observer (planPresentationClientDirect example_runtime example_collaborators
        (answering ?cs) ''doc'' JNull ?cfg (Some recording) []) = [JStr ''AB'', JStr ''CD'']" .
  from one two show ?thesis by (intro conjI)
qed

subsection \<open>C5: lines that do not parse\<close>

text \<open>
  C5, as the code has it. A \<^verbatim>\<open>data: \<close> line whose payload fails to parse is dropped by
  both direct planning loops: the body with the line is read as the body without it. The
  proxied loop drops the line only when the message of the parse error is
  \<^verbatim>\<open>Unexpected end of JSON input\<close>; with any other message, no earlier line having
  thrown, it rethrows the error and the reading ends there.
\<close>

theorem C5_unparsable_line_dropped_or_rethrown:
  assumes d: "take 6 line = ''data: ''" and p: "json_parse rt (drop 6 line) = Inl m"
    and b: "complete_lines (concat (chunks b)) = pre @ line # post"
    and b': "complete_lines (concat (chunks b')) = pre @ post"
    and e: "ending b' = ending b"
  shows "read_stream (vertex_line rt onChunk) st b = read_stream (vertex_line rt onChunk) st b'
       \<and> read_stream (openai_line rt onChunk) st b = read_stream (openai_line rt onChunk) st b'
       \<and> (m = ''Unexpected end of JSON input'' \<longrightarrow>
            read_stream (proxy_line rt onChunk) pst b = read_stream (proxy_line rt onChunk) pst b')
       \<and> (m \<noteq> ''Unexpected end of JSON input'' \<and> fst (for_lines (proxy_line rt onChunk) pst pre) = None \<longrightarrow>
            fst (read_stream (proxy_line rt onChunk) pst b) = Some (JsError SyntaxErrorN m))"
proof (intro conjI impI)
  show "read_stream (vertex_line rt onChunk) st b = read_stream (vertex_line rt onChunk) st b'"
    by (rule read_stream_skip[where h = "vertex_line rt onChunk" and line = line,
          OF vertex_line_unparsable[OF d p] b b' e])
  show "read_stream (openai_line rt onChunk) st b = read_stream (openai_line rt onChunk) st b'"
    by (rule read_stream_skip[where h = "openai_line rt onChunk" and line = line,
          OF openai_line_unparsable[OF d p] b b' e])
next
  assume m: "m = ''Unexpected end of JSON input''"
  have "\<And>st. proxy_line rt onChunk st line = (None, st)"
    using proxy_line_unparsable[OF d p] m by simp
  from read_stream_skip[where h = "proxy_line rt onChunk" and line = line, OF this b b' e]
  show "read_stream (proxy_line rt onChunk) pst b = read_stream (proxy_line rt onChunk) pst b'" .
next
  assume a: "m \<noteq> ''Unexpected end of JSON input'' \<and> fst (for_lines (proxy_line rt onChunk) pst pre) = None"
  obtain st' where pre: "for_lines (proxy_line rt onChunk) pst pre = (None, st')"
    using a by (cases "for_lines (proxy_line rt onChunk) pst pre") auto
  show "fst (read_stream (proxy_line rt onChunk) pst b) = Some (JsError SyntaxErrorN m)"
    using a by (simp add: read_stream_lines b for_lines_append pre proxy_line_unparsable[OF d p])
qed

text \<open>An instance: the line \<^verbatim>\<open>data: not-json\<close> between two valid lines, cut across chunks.\<close>

theorem C5_witness:
  \<open>take 6 ''data: not-json'' = ''data: ''
   \<and> json_parse example_runtime (drop 6 ''data: not-json'') = Inl ''Unexpected token''
   \<and> read_stream (vertex_line example_runtime (Some recording)) ([], [])
       \<lparr>chunks = [''data: {"candidates":[{"content":{"parts":[{"text":"AB"}]}}]}\<newline>data: not-js'',
                  ''on\<newline>data: {"candidates":[{"content":{"parts":[{"text":"CD"}]}}]}\<newline>''],
        ending = EndOfStream\<rparr> =
     read_stream (vertex_line example_runtime (Some recording)) ([], [])
       \<lparr>chunks = [''data: {"candidates":[{"content":{"parts":[{"text":"AB"}]}}]}\<newline>'',
                  ''data: {"candidates":[{"content":{"parts":[{"text":"CD"}]}}]}\<newline>''],
        ending = EndOfStream\<rparr>
   \<and> fst (read_stream (proxy_line example_runtime (Some recording)) (None, [])
       \<lparr>chunks = [''data: {"candidates":[{"content":{"parts":[{"text":"AB"}]}}]}\<newline>data: not-js'',
                  ''on\<newline>data: {"candidates":[{"content":{"parts":[{"text":"CD"}]}}]}\<newline>''],
        ending = EndOfStream\<rparr>) =
     Some (JsError SyntaxErrorN ''Unexpected token'')
   \<and> json_parse example_runtime (drop 6 ''data: '') = Inl ''Unexpected end of JSON input''
   \<and> read_stream (proxy_line example_runtime (Some recording)) (None, [])
       \<lparr>chunks = [''data: {"chunk":"AB"}\<newline>data: \<newline>data: {"done":true,"result":{}}\<newline>''],
        ending = EndOfStream\<rparr> =
     read_stream (proxy_line example_runtime (Some recording)) (None, [])
       \<lparr>chunks = [''data: {"chunk":"AB"}\<newline>data: {"done":true,"result":{}}\<newline>''],
        ending = EndOfStream\<rparr>\<close>
proof -
  let ?b = \<open>\<lparr>chunks = [''data: {"candidates":[{"content":{"parts":[{"text":"AB"}]}}]}\<newline>data: not-js'',
                  ''on\<newline>data: {"candidates":[{"content":{"parts":[{"text":"CD"}]}}]}\<newline>''],
        ending = EndOfStream\<rparr>\<close>
  let ?b' = \<open>\<lparr>chunks = [''data: {"candidates":[{"content":{"parts":[{"text":"AB"}]}}]}\<newline>'',
                  ''data: {"candidates":[{"content":{"parts":[{"text":"CD"}]}}]}\<newline>''],
        ending = EndOfStream\<rparr>\<close>
  let ?pre = \<open>[''data: {"candidates":[{"content":{"parts":[{"text":"AB"}]}}]}'']\<close>
  let ?post = \<open>[''data: {"candidates":[{"content":{"parts":[{"text":"CD"}]}}]}'']\<close>
  let ?c = \<open>\<lparr>chunks = [''data: {"chunk":"AB"}\<newline>data: \<newline>data: {"done":true,"result":{}}\<newline>''],
        ending = EndOfStream\<rparr>\<close>
  let ?c' = \<open>\<lparr>chunks = [''data: {"chunk":"AB"}\<newline>data: {"done":true,"result":{}}\<newline>''],
        ending = EndOfStream\<rparr>\<close>
  let ?cpre = \<open>[''data: {"chunk":"AB"}'']\<close>
  let ?cpost = \<open>[''data: {"done":true,"result":{}}'']\<close>
  have d: "take 6 ''data: not-json'' = ''data: ''" by simp
  have p: "json_parse example_runtime (drop 6 ''data: not-json'') = Inl ''Unexpected token''"
    by (simp add: example_parse)
  have b: "complete_lines (concat (chunks ?b)) = ?pre @ ''data: not-json'' # ?post"
    by (simp add: complete_lines_def)
  have b': "complete_lines (concat (chunks ?b')) = ?pre @ ?post"
    by (simp add: complete_lines_def)
  have e: "ending ?b' = ending ?b" by simp
  note inst = C5_unparsable_line_dropped_or_rethrown[where rt = example_runtime
      and onChunk = "Some recording" and st = "([], [])" and pst = "(None, [])", OF d p b b' e]
  have pre: "''Unexpected token'' \<noteq> ''Unexpected end of JSON input''
      \<and> fst (for_lines (proxy_line example_runtime (Some recording)) (None, []) ?pre) = None"
    by (simp add: run_defs)
  have d2: "take 6 ''data: '' = ''data: ''" by simp
  have p2: "json_parse example_runtime (drop 6 ''data: '') = Inl ''Unexpected end of JSON input''"
    by (simp add: example_parse)
  have c: "complete_lines (concat (chunks ?c)) = ?cpre @ ''data: '' # ?cpost"
    by (simp add: complete_lines_def)
  have c': "complete_lines (concat (chunks ?c')) = ?cpre @ ?cpost"
    by (simp add: complete_lines_def)
  have e2: "ending ?c' = ending ?c" by simp
  note inst2 = C5_unparsable_line_dropped_or_rethrown[where rt = example_runtime
      and onChunk = "Some recording" and st = "([], [])" and pst = "(None, [])", OF d2 p2 c c' e2]
  from d p inst[THEN conjunct1] inst[THEN conjunct2, THEN conjunct2, THEN conjunct2, THEN mp, OF pre]
    p2 inst2[THEN conjunct2, THEN conjunct2, THEN conjunct1, THEN mp, OF refl]
  show ?thesis by (intro conjI)
qed

text \<open>
  The claim as first stated fails in proxied mode: after the chunk \<^verbatim>\<open>AB\<close> the line
  \<^verbatim>\<open>data: not-json\<close> ends the call with the parser's exception, and the result record
  that follows is never read.
\<close>

theorem C5_counterexample:
  \<open>planPresentation example_runtime example_collaborators
       (answering [''data: {"chunk":"AB"}\<newline>data: not-json\<newline>data: {"done":true,"result":{"title":"T","slides":[]}}\<newline>''])
       (Some (example_config OPENAI SERVER_PROXY)) ''doc'' JNull (Some recording) [] =
     Run (Raised (JsError SyntaxErrorN ''Unexpected token'')) [JStr ''AB'']
       [\<lparr>url = ''/api/plan'', http_method = ''POST'',
         headers = [(''Content-Type'', ''application/json'')],
         req_body = PlanProxy ''doc'' JNull (example_config OPENAI SERVER_PROXY),
         signal = None\<rparr>]\<close>
  by (simp add: run_defs)

subsection \<open>C6: the sentinel of the OpenAI-style stream\<close>

text \<open>
  C6, as the code has it. In the OpenAI-style loop the line \<^verbatim>\<open>data: [DONE]\<close> is skipped,
  whatever the runtime's parser would make of it: it changes neither the accumulated text nor
  the observer and raises nothing. It does not end the reading: a body with the line is
  read as the same body without it, the lines after it included.
\<close>

theorem C6_done_line_is_skipped:
  assumes b: "complete_lines (concat (chunks b)) = pre @ ''data: [DONE]'' # post"
    and b': "complete_lines (concat (chunks b')) = pre @ post"
    and e: "ending b' = ending b"
  shows "openai_line rt onChunk st ''data: [DONE]'' = (None, st)
       \<and> read_stream (openai_line rt onChunk) st b = read_stream (openai_line rt onChunk) st b'"
proof -
  have skip: "\<And>st. openai_line rt onChunk st ''data: [DONE]'' = (None, st)"
    by (simp add: openai_line_def)
  from skip read_stream_skip[where h = "openai_line rt onChunk" and line = "''data: [DONE]''",
      OF skip b b' e]
  show ?thesis by simp
qed

text \<open>An instance: the sentinel between two deltas, cut across chunks.\<close>

theorem C6_witness:
  \<open>complete_lines (concat (chunks
       \<lparr>chunks = [''data: {"choices":[{"delta":{"content":"AB"}}]}\<newline>data: [DO'',
                  ''NE]\<newline>data: {"choices":[{"delta":{"content":"CD"}}]}\<newline>''],
        ending = EndOfStream\<rparr>)) =
     [''data: {"choices":[{"delta":{"content":"AB"}}]}''] @
       ''data: [DONE]'' # [''data: {"choices":[{"delta":{"content":"CD"}}]}'']
   \<and> openai_line example_runtime (Some recording) ([], []) ''data: [DONE]'' = (None, [], [])
   \<and> read_stream (openai_line example_runtime (Some recording)) ([], [])
       \<lparr>chunks = [''data: {"choices":[{"delta":{"content":"AB"}}]}\<newline>data: [DO'',
                  ''NE]\<newline>data: {"choices":[{"delta":{"content":"CD"}}]}\<newline>''],
        ending = EndOfStream\<rparr> =
     read_stream (openai_line example_runtime (Some recording)) ([], [])
       \<lparr>chunks = [''data: {"choices":[{"delta":{"content":"AB"}}]}\<newline>'',
                  ''data: {"choices":[{"delta":{"content":"CD"}}]}\<newline>''],
        ending = EndOfStream\<rparr>\<close>
proof -
  let ?b = \<open>\<lparr>chunks = [''data: {"choices":[{"delta":{"content":"AB"}}]}\<newline>data: [DO'',
                  ''NE]\<newline>data: {"choices":[{"delta":{"content":"CD"}}]}\<newline>''],
        ending = EndOfStream\<rparr>\<close>
  let ?b' = \<open>\<lparr>chunks = [''data: {"choices":[{"delta":{"content":"AB"}}]}\<newline>'',
                  ''data: {"choices":[{"delta":{"content":"CD"}}]}\<newline>''],
        ending = EndOfStream\<rparr>\<close>
  let ?pre = \<open>[''data: {"choices":[{"delta":{"content":"AB"}}]}'']\<close>
  let ?post = \<open>[''data: {"choices":[{"delta":{"content":"CD"}}]}'']\<close>
  have b: "complete_lines (concat (chunks ?b)) = ?pre @ ''data: [DONE]'' # ?post"
    by (simp add: complete_lines_def)
  have b': "complete_lines (concat (chunks ?b')) = ?pre @ ?post"
    by (simp add: complete_lines_def)
  have e: "ending ?b' = ending ?b" by simp
  note inst = C6_done_line_is_skipped[where rt = example_runtime
      and onChunk = "Some recording" and st = "([], [])", OF b b' e]
  from b inst[THEN conjunct1] inst[THEN conjunct2] show ?thesis by (intro conjI)
qed

text \<open>
  The claim as first stated fails where it makes the sentinel the end of the stream: the
  delta of the line after it is accumulated and delivered.
\<close>

theorem C6_counterexample:
  \<open>read_stream (openai_line example_runtime (Some recording)) ([], [])
       \<lparr>chunks = [''data: [DONE]\<newline>data: {"choices":[{"delta":{"content":"AB"}}]}\<newline>''],
        ending = EndOfStream\<rparr> =
     (None, ''AB'', [JStr ''AB''])\<close>
  by (simp add: run_defs)

subsection \<open>C7: image extraction\<close>

text \<open>
  C7. For a Vertex-style image response: when \<^verbatim>\<open>candidates[0].content.parts\<close> is an array
  of which a part carries \<^verbatim>\<open>inlineData\<close> with a non-empty string \<^verbatim>\<open>data\<close>, and no part
  before it carries an image, \<^verbatim>\<open>extractImage\<close> gives the data URI built from that part,
  with its mime type when that is a non-empty string and \<^verbatim>\<open>image/png\<close> when it is absent
  or empty, and \<^verbatim>\<open>generateSlideImage\<close> (direct mode, Vertex protocol, answered in time
  with an ok status whose body is that response) returns this data URI; when there are no
  parts, or no part carries an image, \<^verbatim>\<open>generateSlideImage\<close> raises
  \<^verbatim>\<open>No image generated\<close>.
\<close>

theorem C7_first_inline_image_or_no_image_error:
  "(qdot (qdot (qat0 (qdot (Some response) ''candidates'')) ''content'') ''parts'' = Some (JArr ps)
      \<and> ps = pre @ p # post
      \<and> (\<forall>q \<in> set pre. q \<noteq> JNull \<and> \<not> carries_image q)
      \<and> qdot (Some p) ''inlineData'' = Some inl
      \<and> qdot (Some inl) ''data'' = Some (JStr d) \<and> d \<noteq> []
      \<and> qdot (Some inl) ''mimeType'' = mt \<and> (mt = None \<or> (\<exists>m. mt = Some (JStr m))) \<longrightarrow>
        extractImage rt response =
          Inr (Some (''data:'' @
                     (case mt of Some (JStr m) \<Rightarrow> if m = [] then ''image/png'' else m
                               | _ \<Rightarrow> ''image/png'') @
                     '';base64,'' @ d)))
   \<and> (qdot (qdot (qat0 (qdot (Some response) ''candidates'')) ''content'') ''parts'' = Some (JArr ps)
      \<and> ps = pre @ p # post
      \<and> (\<forall>q \<in> set pre. q \<noteq> JNull \<and> \<not> carries_image q)
      \<and> qdot (Some p) ''inlineData'' = Some inl
      \<and> qdot (Some inl) ''data'' = Some (JStr d) \<and> d \<noteq> []
      \<and> qdot (Some inl) ''mimeType'' = mt \<and> (mt = None \<or> (\<exists>m. mt = Some (JStr m)))
      \<and> requestMode cfg = CLIENT_DIRECT \<and> protocol cfg = VERTEX_AI
      \<and> (\<forall>req. net req = Settles t (Inr resp)) \<and> t < 180000 \<and> ok resp
      \<and> response_json rt resp = Inr response \<longrightarrow>
        reply (generateSlideImage rt co net (Some cfg) slide deckTitle pc) =
          Returned (Some (JStr (''data:'' @
                     (case mt of Some (JStr m) \<Rightarrow> if m = [] then ''image/png'' else m
                               | _ \<Rightarrow> ''image/png'') @
                     '';base64,'' @ d))))
   \<and> (response \<noteq> JNull
      \<and> (qdot (qdot (qat0 (qdot (Some response) ''candidates'')) ''content'') ''parts'' = None
         \<or> qdot (qdot (qat0 (qdot (Some response) ''candidates'')) ''content'') ''parts'' = Some (JArr ps)
           \<and> (\<forall>q \<in> set ps. q \<noteq> JNull \<and> \<not> carries_image q))
      \<and> requestMode cfg = CLIENT_DIRECT \<and> protocol cfg = VERTEX_AI
      \<and> (\<forall>req. net req = Settles t (Inr resp)) \<and> t < 180000 \<and> ok resp
      \<and> response_json rt resp = Inr response \<longrightarrow>
        reply (generateSlideImage rt co net (Some cfg) slide deckTitle pc) =
          Raised (JsError ErrorN ''No image generated''))"
proof (intro conjI impI)
  assume a: "qdot (qdot (qat0 (qdot (Some response) ''candidates'')) ''content'') ''parts'' = Some (JArr ps)
      \<and> ps = pre @ p # post
      \<and> (\<forall>q \<in> set pre. q \<noteq> JNull \<and> \<not> carries_image q)
      \<and> qdot (Some p) ''inlineData'' = Some inl
      \<and> qdot (Some inl) ''data'' = Some (JStr d) \<and> d \<noteq> []
      \<and> qdot (Some inl) ''mimeType'' = mt \<and> (mt = None \<or> (\<exists>m. mt = Some (JStr m)))"
  then have parts:
      "qdot (qdot (qat0 (qdot (Some response) ''candidates'')) ''content'') ''parts'' = Some (JArr ps)"
    and ps: "ps = pre @ p # post"
    and pre: "\<forall>q \<in> set pre. q \<noteq> JNull \<and> \<not> carries_image q"
    by simp_all
  from a have hit: "qdot (Some p) ''inlineData'' = Some inl" "qdot (Some inl) ''data'' = Some (JStr d)"
      "d \<noteq> []" "qdot (Some inl) ''mimeType'' = mt" "mt = None \<or> (\<exists>m. mt = Some (JStr m))"
    by simp_all
  show "extractImage rt response =
          Inr (Some (''data:'' @
                     (case mt of Some (JStr m) \<Rightarrow> if m = [] then ''image/png'' else m
                               | _ \<Rightarrow> ''image/png'') @
                     '';base64,'' @ d))"
    by (rule extractImage_first_image[OF parts ps pre hit])
next
  assume a: "qdot (qdot (qat0 (qdot (Some response) ''candidates'')) ''content'') ''parts'' = Some (JArr ps)
      \<and> ps = pre @ p # post
      \<and> (\<forall>q \<in> set pre. q \<noteq> JNull \<and> \<not> carries_image q)
      \<and> qdot (Some p) ''inlineData'' = Some inl
      \<and> qdot (Some inl) ''data'' = Some (JStr d) \<and> d \<noteq> []
      \<and> qdot (Some inl) ''mimeType'' = mt \<and> (mt = None \<or> (\<exists>m. mt = Some (JStr m)))
      \<and> requestMode cfg = CLIENT_DIRECT \<and> protocol cfg = VERTEX_AI
      \<and> (\<forall>req. net req = Settles t (Inr resp)) \<and> t < 180000 \<and> ok resp
      \<and> response_json rt resp = Inr response"
  then have parts:
      "qdot (qdot (qat0 (qdot (Some response) ''candidates'')) ''content'') ''parts'' = Some (JArr ps)"
    and ps: "ps = pre @ p # post"
    and pre: "\<forall>q \<in> set pre. q \<noteq> JNull \<and> \<not> carries_image q"
    by simp_all
  from a have hit: "qdot (Some p) ''inlineData'' = Some inl" "qdot (Some inl) ''data'' = Some (JStr d)"
      "d \<noteq> []" "qdot (Some inl) ''mimeType'' = mt" "mt = None \<or> (\<exists>m. mt = Some (JStr m))"
    by simp_all
  from a have net: "\<And>req. net req = Settles t (Inr resp)" by simp
  from a have x: "t < 180000" "ok resp" "response_json rt resp = Inr response" "protocol cfg \<noteq> OPENAI"
    by simp_all
  from a have mode: "requestMode cfg = CLIENT_DIRECT" by simp
  show "reply (generateSlideImage rt co net (Some cfg) slide deckTitle pc) =
          Returned (Some (JStr (''data:'' @
                     (case mt of Some (JStr m) \<Rightarrow> if m = [] then ''image/png'' else m
                               | _ \<Rightarrow> ''image/png'') @
                     '';base64,'' @ d)))"
    using mode
    by (simp add: generateSlideImage_def direct_vertex_image_answered[where net = net, OF net x]
          vertex_image_def extractImage_first_image[OF parts ps pre hit])
next
  assume a: "response \<noteq> JNull
      \<and> (qdot (qdot (qat0 (qdot (Some response) ''candidates'')) ''content'') ''parts'' = None
         \<or> qdot (qdot (qat0 (qdot (Some response) ''candidates'')) ''content'') ''parts'' = Some (JArr ps)
           \<and> (\<forall>q \<in> set ps. q \<noteq> JNull \<and> \<not> carries_image q))
      \<and> requestMode cfg = CLIENT_DIRECT \<and> protocol cfg = VERTEX_AI
      \<and> (\<forall>req. net req = Settles t (Inr resp)) \<and> t < 180000 \<and> ok resp
      \<and> response_json rt resp = Inr response"
  have none: "extractImage rt response = Inr None"
  proof (cases "qdot (qdot (qat0 (qdot (Some response) ''candidates'')) ''content'') ''parts''")
    case None
    then show ?thesis using a extractImage_no_parts by simp
  next
    case (Some x)
    then have parts:
        "qdot (qdot (qat0 (qdot (Some response) ''candidates'')) ''content'') ''parts'' = Some (JArr ps)"
      and no: "\<forall>q \<in> set ps. q \<noteq> JNull \<and> \<not> carries_image q"
      using a by auto
    show ?thesis by (simp add: extractImage_parts[OF parts] scan_parts_none[OF no])
  qed
  from a have net: "\<And>req. net req = Settles t (Inr resp)" by simp
  from a have x: "t < 180000" "ok resp" "response_json rt resp = Inr response" "protocol cfg \<noteq> OPENAI"
    by simp_all
  show "reply (generateSlideImage rt co net (Some cfg) slide deckTitle pc) =
          Raised (JsError ErrorN ''No image generated'')"
    using a
    by (simp add: generateSlideImage_def direct_vertex_image_answered[where net = net, OF net x]
          vertex_image_def none)
qed

text \<open>
  Instances: the example of the specification, at \<^verbatim>\<open>extractImage\<close> and through
  \<^verbatim>\<open>generateSlideImage\<close>; a first image behind a text part with no mime type, at both
  again; a response without an image; and a response without parts.
\<close>

theorem C7_witness:
  \<open>extractImage example_runtime
      (JObj [(''candidates'', JArr [JObj [(''content'',
           JObj [(''parts'', JArr [JObj [(''inlineData'',
             JObj [(''mimeType'', JStr ''image/jpeg''), (''data'', JStr ''QUJD'')])]])])]])]) =
     Inr (Some ''data:image/jpeg;base64,QUJD'')
   \<and> extractImage example_runtime
      (JObj [(''candidates'', JArr [JObj [(''content'',
           JObj [(''parts'', JArr [JObj [(''text'', JStr ''AB'')],
                                   JObj [(''inlineData'', JObj [(''data'', JStr ''QUJD'')])],
                                   JObj [(''inlineData'', JObj [(''data'', JStr ''REVG'')])]])])]])]) =
     Inr (Some ''data:image/png;base64,QUJD'')
   \<and> reply (generateSlideImage example_runtime example_collaborators
        (answering [''{"candidates":[{"content":{"parts":[{"inlineData":{"mimeType":"image/jpeg","data":"QUJD"}}]}}]}''])
        (Some (example_config VERTEX_AI CLIENT_DIRECT)) JNull ''deck'' JNull) =
     Returned (Some (JStr ''data:image/jpeg;base64,QUJD''))
   \<and> reply (generateSlideImage example_runtime example_collaborators
        (answering [''{"candidates":[{"content":{"parts":[{"text":"AB"},{"inlineData":{"data":"QUJD"}},{"inlineData":{"data":"REVG"}}]}}]}''])
        (Some (example_config VERTEX_AI CLIENT_DIRECT)) JNull ''deck'' JNull) =
     Returned (Some (JStr ''data:image/png;base64,QUJD''))
   \<and> reply (generateSlideImage example_runtime example_collaborators
        (answering [''{"candidates":[{"content":{"parts":[{"text":"AB"}]}}]}''])
        (Some (example_config VERTEX_AI CLIENT_DIRECT)) JNull ''deck'' JNull) =
     Raised (JsError ErrorN ''No image generated'')
   \<and> reply (generateSlideImage example_runtime example_collaborators (answering [''{}''])
        (Some (example_config VERTEX_AI CLIENT_DIRECT)) JNull ''deck'' JNull) =
     Raised (JsError ErrorN ''No image generated'')\<close>
proof -
  let ?inl = "JObj [(''mimeType'', JStr ''image/jpeg''), (''data'', JStr ''QUJD'')]"
  let ?p = "JObj [(''inlineData'', ?inl)]"
  let ?r1 = "JObj [(''candidates'', JArr [JObj [(''content'', JObj [(''parts'', JArr [?p])])]])]"
  let ?inl2 = "JObj [(''data'', JStr ''QUJD'')]"
  let ?t = "JObj [(''text'', JStr ''AB'')]"
  let ?p2 = "JObj [(''inlineData'', ?inl2)]"
  let ?p3 = "JObj [(''inlineData'', JObj [(''data'', JStr ''REVG'')])]"
  let ?r2 = "JObj [(''candidates'', JArr [JObj [(''content'', JObj [(''parts'', JArr [?t, ?p2, ?p3])])]])]"
  let ?r3 = "JObj [(''candidates'', JArr [JObj [(''content'', JObj [(''parts'', JArr [?t])])]])]"
  let ?cs = \<open>[''{"candidates":[{"content":{"parts":[{"text":"AB"}]}}]}'']\<close>
  let ?resp = "\<lparr>ok = True, statusText = ''OK'', body = Some \<lparr>chunks = ?cs, ending = EndOfStream\<rparr>\<rparr>"
  let ?resp4 = "\<lparr>ok = True, statusText = ''OK'', body = Some \<lparr>chunks = [''{}''], ending = EndOfStream\<rparr>\<rparr>"
  let ?cs1 = \<open>[''{"candidates":[{"content":{"parts":[{"inlineData":{"mimeType":"image/jpeg","data":"QUJD"}}]}}]}'']\<close>
  let ?resp1 = "\<lparr>ok = True, statusText = ''OK'', body = Some \<lparr>chunks = ?cs1, ending = EndOfStream\<rparr>\<rparr>"
  let ?cs2 = \<open>[''{"candidates":[{"content":{"parts":[{"text":"AB"},{"inlineData":{"data":"QUJD"}},{"inlineData":{"data":"REVG"}}]}}]}'']\<close>
  let ?resp2 = "\<lparr>ok = True, statusText = ''OK'', body = Some \<lparr>chunks = ?cs2, ending = EndOfStream\<rparr>\<rparr>"
  have n1: "requestMode (example_config VERTEX_AI CLIENT_DIRECT) = CLIENT_DIRECT
          \<and> protocol (example_config VERTEX_AI CLIENT_DIRECT) = VERTEX_AI
          \<and> (\<forall>req. answering ?cs1 req = Settles 100 (Inr ?resp1)) \<and> (100::nat) < 180000 \<and> ok ?resp1
          \<and> response_json example_runtime ?resp1 = Inr ?r1"
    by (simp add: example_config_def answering_def response_json_def response_text_def example_parse)
  have n2: "requestMode (example_config VERTEX_AI CLIENT_DIRECT) = CLIENT_DIRECT
          \<and> protocol (example_config VERTEX_AI CLIENT_DIRECT) = VERTEX_AI
          \<and> (\<forall>req. answering ?cs2 req = Settles 100 (Inr ?resp2)) \<and> (100::nat) < 180000 \<and> ok ?resp2
          \<and> response_json example_runtime ?resp2 = Inr ?r2"
    by (simp add: example_config_def answering_def response_json_def response_text_def example_parse)
  have h1: "qdot (qdot (qat0 (qdot (Some ?r1) ''candidates'')) ''content'') ''parts'' = Some (JArr [?p])
          \<and> [?p] = [] @ ?p # []
          \<and> (\<forall>q \<in> set []. q \<noteq> JNull \<and> \<not> carries_image q)
          \<and> qdot (Some ?p) ''inlineData'' = Some ?inl
          \<and> qdot (Some ?inl) ''data'' = Some (JStr ''QUJD'') \<and> ''QUJD'' \<noteq> []
          \<and> qdot (Some ?inl) ''mimeType'' = Some (JStr ''image/jpeg'')
          \<and> (Some (JStr ''image/jpeg'') = None \<or> (\<exists>m. Some (JStr ''image/jpeg'') = Some (JStr m)))"
    by (simp add: qdot_def qat0_def)
  have h2: "qdot (qdot (qat0 (qdot (Some ?r2) ''candidates'')) ''content'') ''parts'' = Some (JArr [?t, ?p2, ?p3])
          \<and> [?t, ?p2, ?p3] = [?t] @ ?p2 # [?p3]
          \<and> (\<forall>q \<in> set [?t]. q \<noteq> JNull \<and> \<not> carries_image q)
          \<and> qdot (Some ?p2) ''inlineData'' = Some ?inl2
          \<and> qdot (Some ?inl2) ''data'' = Some (JStr ''QUJD'') \<and> ''QUJD'' \<noteq> []
          \<and> qdot (Some ?inl2) ''mimeType'' = None
          \<and> (None = None \<or> (\<exists>m. None = Some (JStr m)))"
    by (simp add: qdot_def qat0_def carries_image_def truthy_opt_def)
  have h3: "?r3 \<noteq> JNull
          \<and> (qdot (qdot (qat0 (qdot (Some ?r3) ''candidates'')) ''content'') ''parts'' = None
             \<or> qdot (qdot (qat0 (qdot (Some ?r3) ''candidates'')) ''content'') ''parts'' = Some (JArr [?t])
               \<and> (\<forall>q \<in> set [?t]. q \<noteq> JNull \<and> \<not> carries_image q))
          \<and> requestMode (example_config VERTEX_AI CLIENT_DIRECT) = CLIENT_DIRECT
          \<and> protocol (example_config VERTEX_AI CLIENT_DIRECT) = VERTEX_AI
          \<and> (\<forall>req. answering ?cs req = Settles 100 (Inr ?resp)) \<and> (100::nat) < 180000 \<and> ok ?resp
          \<and> response_json example_runtime ?resp = Inr ?r3"
    by (simp add: qdot_def qat0_def carries_image_def truthy_opt_def example_config_def answering_def
          response_json_def response_text_def example_parse)
  have h4: "JObj [] \<noteq> JNull
          \<and> (qdot (qdot (qat0 (qdot (Some (JObj [])) ''candidates'')) ''content'') ''parts'' = None
             \<or> qdot (qdot (qat0 (qdot (Some (JObj [])) ''candidates'')) ''content'') ''parts'' = Some (JArr [])
               \<and> (\<forall>q \<in> set []. q \<noteq> JNull \<and> \<not> carries_image q))
          \<and> requestMode (example_config VERTEX_AI CLIENT_DIRECT) = CLIENT_DIRECT
          \<and> protocol (example_config VERTEX_AI CLIENT_DIRECT) = VERTEX_AI
          \<and> (\<forall>req. answering [''{}''] req = Settles 100 (Inr ?resp4)) \<and> (100::nat) < 180000 \<and> ok ?resp4
          \<and> response_json example_runtime ?resp4 = Inr (JObj [])"
    by (simp add: qdot_def qat0_def example_config_def answering_def
          response_json_def response_text_def example_parse)
  have a: "extractImage example_runtime ?r1 = Inr (Some ''data:image/jpeg;base64,QUJD'')"
    using C7_first_inline_image_or_no_image_error[where rt = example_runtime,
        THEN conjunct1, THEN mp, OF h1]
    by simp
  have b: "extractImage example_runtime ?r2 = Inr (Some ''data:image/png;base64,QUJD'')"
    using C7_first_inline_image_or_no_image_error[where rt = example_runtime,
        THEN conjunct1, THEN mp, OF h2]
    by simp
  have c: "reply (generateSlideImage example_runtime example_collaborators (answering ?cs)
        (Some (example_config VERTEX_AI CLIENT_DIRECT)) JNull ''deck'' JNull) =
     Raised (JsError ErrorN ''No image generated'')"
    by (rule C7_first_inline_image_or_no_image_error[THEN conjunct2, THEN conjunct2, THEN mp, OF h3])
  have d: "reply (generateSlideImage example_runtime example_collaborators (answering [''{}''])
        (Some (example_config VERTEX_AI CLIENT_DIRECT)) JNull ''deck'' JNull) =
     Raised (JsError ErrorN ''No image generated'')"
    by (rule C7_first_inline_image_or_no_image_error[THEN conjunct2, THEN conjunct2, THEN mp, OF h4])
  have e: "reply (generateSlideImage example_runtime example_collaborators (answering ?cs1)
        (Some (example_config VERTEX_AI CLIENT_DIRECT)) JNull ''deck'' JNull) =
     Returned (Some (JStr ''data:image/jpeg;base64,QUJD''))"
    using C7_first_inline_image_or_no_image_error[where rt = example_runtime
        and co = example_collaborators and slide = JNull and deckTitle = "''deck''" and pc = JNull
        and response = ?r1 and ps = "[?p]" and pre = "[]" and p = ?p and post = "[]"
        and inl = ?inl and d = "''QUJD''" and mt = "Some (JStr ''image/jpeg'')"
        and cfg = "example_config VERTEX_AI CLIENT_DIRECT" and net = "answering ?cs1"
        and t = 100 and resp = ?resp1,
        THEN conjunct2, THEN conjunct1]
      h1 n1
    by simp
  have f: "reply (generateSlideImage example_runtime example_collaborators (answering ?cs2)
        (Some (example_config VERTEX_AI CLIENT_DIRECT)) JNull ''deck'' JNull) =
     Returned (Some (JStr ''data:image/png;base64,QUJD''))"
    using C7_first_inline_image_or_no_image_error[where rt = example_runtime
        and co = example_collaborators and slide = JNull and deckTitle = "''deck''" and pc = JNull
        and response = ?r2 and ps = "[?t, ?p2, ?p3]" and pre = "[?t]" and p = ?p2 and post = "[?p3]"
        and inl = ?inl2 and d = "''QUJD''" and mt = None
        and cfg = "example_config VERTEX_AI CLIENT_DIRECT" and net = "answering ?cs2"
        and t = 100 and resp = ?resp2,
        THEN conjunct2, THEN conjunct1]
      h2 n2
    by simp
  from a b e f c d show ?thesis by (intro conjI)
qed

subsection \<open>C8: missing configuration\<close>

text \<open>
  C8. With no configuration present, both facade operations raise \<^verbatim>\<open>API not configured\<close>
  and issue no request, whatever the network; \<^verbatim>\<open>planPresentation\<close> leaves the observer as
  it was.
\<close>

theorem C8_missing_configuration_fails_first:
  "planPresentation rt co net None document presentationConfig onChunk s =
     Run (Raised (JsError ErrorN ''API not configured'')) s []
   \<and> generateSlideImage rt co net None slide deckTitle presentationConfig =
     Call (Raised (JsError ErrorN ''API not configured'')) []"
  by (simp add: planPresentation_def generateSlideImage_def)

subsection \<open>C9: the proxied stream without a result\<close>

text \<open>
  C9. \<^verbatim>\<open>planPresentationServerProxy\<close> returns a value only when a complete line of the
  stream is a record with both \<^verbatim>\<open>done\<close> and \<^verbatim>\<open>result\<close> whose result is that value. When
  the response is ok and no complete line is such a record, the call raises; and when the
  reading loop has come to the end of the stream without throwing, the error is
  \<^verbatim>\<open>No result received from stream\<close>.
\<close>

theorem C9_proxy_returns_only_a_delivered_result:
  "(outcome (planPresentationServerProxy rt net document pc cfg onChunk s) = Returned v \<longrightarrow>
      (\<exists>req resp b.
          issued (planPresentationServerProxy rt net document pc cfg onChunk s) = [req]
        \<and> fetch rt net req = Returned resp \<and> body resp = Some b
        \<and> (\<exists>line \<in> set (complete_lines (concat (chunks b))). proxy_record rt line = Some v)))
   \<and> (issued (planPresentationServerProxy rt net document pc cfg onChunk s) = [req']
        \<and> fetch rt net req' = Returned resp' \<and> ok resp' \<and> body resp' = Some b'
        \<and> (\<forall>line \<in> set (complete_lines (concat (chunks b'))). proxy_record rt line = None) \<longrightarrow>
      (\<exists>e. outcome (planPresentationServerProxy rt net document pc cfg onChunk s) = Raised e)
      \<and> (fst (read_stream (proxy_line rt onChunk) (None, s) b') = None \<longrightarrow>
           outcome (planPresentationServerProxy rt net document pc cfg onChunk s) =
             Raised (JsError ErrorN ''No result received from stream'')))"
proof (rule conjI)
  show "outcome (planPresentationServerProxy rt net document pc cfg onChunk s) = Returned v \<longrightarrow>
      (\<exists>req resp b.
          issued (planPresentationServerProxy rt net document pc cfg onChunk s) = [req]
        \<and> fetch rt net req = Returned resp \<and> body resp = Some b
        \<and> (\<exists>line \<in> set (complete_lines (concat (chunks b))). proxy_record rt line = Some v))"
    using proxy_returned[of rt net document pc cfg onChunk s v] by blast
next
  show "issued (planPresentationServerProxy rt net document pc cfg onChunk s) = [req']
        \<and> fetch rt net req' = Returned resp' \<and> ok resp' \<and> body resp' = Some b'
        \<and> (\<forall>line \<in> set (complete_lines (concat (chunks b'))). proxy_record rt line = None) \<longrightarrow>
      (\<exists>e. outcome (planPresentationServerProxy rt net document pc cfg onChunk s) = Raised e)
      \<and> (fst (read_stream (proxy_line rt onChunk) (None, s) b') = None \<longrightarrow>
           outcome (planPresentationServerProxy rt net document pc cfg onChunk s) =
             Raised (JsError ErrorN ''No result received from stream''))"
  proof
    assume a: "issued (planPresentationServerProxy rt net document pc cfg onChunk s) = [req']
        \<and> fetch rt net req' = Returned resp' \<and> ok resp' \<and> body resp' = Some b'
        \<and> (\<forall>line \<in> set (complete_lines (concat (chunks b'))). proxy_record rt line = None)"
    then have out: "outcome (planPresentationServerProxy rt net document pc cfg onChunk s) =
           (case fst (read_stream (proxy_line rt onChunk) (None, s) b') of
              Some e \<Rightarrow> Raised e
            | None \<Rightarrow> Raised (JsError ErrorN ''No result received from stream''))"
      using proxy_no_record[of rt net document pc cfg onChunk s req' resp' b'] by blast
    show "(\<exists>e. outcome (planPresentationServerProxy rt net document pc cfg onChunk s) = Raised e)
      \<and> (fst (read_stream (proxy_line rt onChunk) (None, s) b') = None \<longrightarrow>
           outcome (planPresentationServerProxy rt net document pc cfg onChunk s) =
             Raised (JsError ErrorN ''No result received from stream''))"
      unfolding out by (cases "fst (read_stream (proxy_line rt onChunk) (None, s) b')") auto
  qed
qed

text \<open>
  Instances: a stream with a result record, and the same stream without the final newline,
  whose last line is never read.
\<close>

theorem C9_witness:
  \<open>outcome (planPresentationServerProxy example_runtime
       (answering [''data: {"chunk":"AB"}\<newline>data: {"done":true,"result":{"title":"T","slides":[]}}\<newline>''])
       ''doc'' JNull (example_config OPENAI SERVER_PROXY) (Some recording) []) =
     Returned (JObj [(''title'', JStr ''T''), (''slides'', JArr [])])
   \<and> (\<exists>req resp b.
          issued (planPresentationServerProxy example_runtime
            (answering [''data: {"chunk":"AB"}\<newline>data: {"done":true,"result":{"title":"T","slides":[]}}\<newline>''])
            ''doc'' JNull (example_config OPENAI SERVER_PROXY) (Some recording) []) = [req]
        \<and> fetch example_runtime
            (answering [''data: {"chunk":"AB"}\<newline>data: {"done":true,"result":{"title":"T","slides":[]}}\<newline>''])
            req = Returned resp
        \<and> body resp = Some b
        \<and> (\<exists>line \<in> set (complete_lines (concat (chunks b))).
              proxy_record example_runtime line =
                Some (JObj [(''title'', JStr ''T''), (''slides'', JArr [])])))
   \<and> outcome (planPresentationServerProxy example_runtime
       (answering [''data: {"chunk":"AB"}\<newline>data: {"done":true,"result":{"title":"T","slides":[]}}''])
       ''doc'' JNull (example_config OPENAI SERVER_PROXY) (Some recording) []) =
     Raised (JsError ErrorN ''No result received from stream'')\<close>
proof -
  let ?cs = \<open>[''data: {"chunk":"AB"}\<newline>data: {"done":true,"result":{"title":"T","slides":[]}}\<newline>'']\<close>
  let ?cs' = \<open>[''data: {"chunk":"AB"}\<newline>data: {"done":true,"result":{"title":"T","slides":[]}}'']\<close>
  let ?v = "JObj [(''title'', JStr ''T''), (''slides'', JArr [])]"
  let ?cfg = "example_config OPENAI SERVER_PROXY"
  let ?b' = "\<lparr>chunks = ?cs', ending = EndOfStream\<rparr>"
  let ?resp' = "\<lparr>ok = True, statusText = ''OK'', body = Some ?b'\<rparr>"
  let ?req = "\<lparr>url = ''/api/plan'', http_method = ''POST'',
       headers = [(''Content-Type'', ''application/json'')],
       req_body = PlanProxy ''doc'' JNull ?cfg, signal = None\<rparr>"
  have r: "outcome (planPresentationServerProxy example_runtime (answering ?cs)
       ''doc'' JNull ?cfg (Some recording) []) = Returned ?v"
    by (simp add: run_defs)
  note one = C9_proxy_returns_only_a_delivered_result[where rt = example_runtime
      and net = "answering ?cs" and document = "''doc''" and pc = JNull and cfg = ?cfg
      and onChunk = "Some recording" and s = "[]" and v = ?v, THEN conjunct1, THEN mp, OF r]
  have h: "issued (planPresentationServerProxy example_runtime (answering ?cs')
             ''doc'' JNull ?cfg (Some recording) []) = [?req]
        \<and> fetch example_runtime (answering ?cs') ?req = Returned ?resp' \<and> ok ?resp'
        \<and> body ?resp' = Some ?b'
        \<and> (\<forall>line \<in> set (complete_lines (concat (chunks ?b'))). proxy_record example_runtime line = None)"
    by (simp add: run_defs complete_lines_def proxy_record_def)
  have fin: "fst (read_stream (proxy_line example_runtime (Some recording)) (None, []) ?b') = None"
    by (simp add: run_defs)
  note two = C9_proxy_returns_only_a_delivered_result[where rt = example_runtime
      and net = "answering ?cs'" and document = "''doc''" and pc = JNull and cfg = ?cfg
      and onChunk = "Some recording" and s = "[]" and req' = ?req and resp' = ?resp' and b' = ?b',
      THEN conjunct2, THEN mp, OF h, THEN conjunct2, THEN mp, OF fin]
  from r one two show ?thesis by (intro conjI)
qed

subsection \<open>C10: the callback does not feed back\<close>

text \<open>
  C10. The result of a direct-mode planning call does not depend on the progress callback:
  with any callback in any state, also one that throws, the call gives what it gives
  without a callback, and issues the same requests.
\<close>

theorem C10_result_independent_of_callback:
  "outcome (planPresentationClientDirect rt co net document presentationConfig apiConfig (Some f) s) =
   outcome (planPresentationClientDirect rt co net document presentationConfig apiConfig None s0)
   \<and> issued (planPresentationClientDirect rt co net document presentationConfig apiConfig (Some f) s) =
     issued (planPresentationClientDirect rt co net document presentationConfig apiConfig None s0)"
proof (cases "protocol apiConfig = OPENAI")
  case True
  then show ?thesis
    unfolding planPresentationClientDirect_def finish_plan_outcome finish_plan_issued
    using read_plan_stream_outcome_indep(2,4)[of rt "Some f" _ s None s0]
    by (simp add: Let_def)
next
  case False
  then show ?thesis
    unfolding planPresentationClientDirect_def finish_plan_outcome finish_plan_issued
    using read_plan_stream_outcome_indep(1,3)[of rt "Some f" _ s None s0]
    by (simp add: Let_def)
qed

end
